theory Spec2Isabelle
  imports Main
begin

section \<open>Python values and strings\<close>

text \<open>
  The script reads JSON fields with \<^verbatim>\<open>dict.get\<close>, which yields \<^verbatim>\<open>None\<close> for an absent
  key, and tests identifiers with \<^verbatim>\<open>if x:\<close> / \<^verbatim>\<open>if not x:\<close>. The values that reach those
  tests are \<^verbatim>\<open>None\<close>, integers and strings.
\<close>

datatype pyval = PNone | PInt int | PStr string

fun truthy :: "pyval \<Rightarrow> bool" where
  "truthy PNone = False"
| "truthy (PInt n) = (n \<noteq> 0)"
| "truthy (PStr s) = (s \<noteq> [])"

text \<open>
  Strings are \<^typ>\<open>string\<close>, a character standing for a code point below 256.
  \<^verbatim>\<open>str.strip()\<close> removes leading and trailing whitespace; below 256 Python's
  whitespace is tab, line feed, vertical tab, form feed, carriage return, the four
  separators 28 to 31, the space, next line (133) and the no-break space (160).
\<close>

definition dquote :: char where
  "dquote = CHR 0x22"

definition is_space :: "char \<Rightarrow> bool" where
  "is_space c =
     (let n = (of_char c :: nat) in
      (9 \<le> n \<and> n \<le> 13) \<or> (28 \<le> n \<and> n \<le> 32) \<or> n = 133 \<or> n = 160)"

definition strip :: "string \<Rightarrow> string" where
  "strip s = rev (dropWhile is_space (rev (dropWhile is_space s)))"

text \<open>\<^verbatim>\<open>sep.join(xs)\<close>.\<close>

fun join :: "string \<Rightarrow> string list \<Rightarrow> string" where
  "join sep [] = []"
| "join sep [x] = x"
| "join sep (x # y # ys) = x @ sep @ join sep (y # ys)"

section \<open>Selection Query Builder: \<^verbatim>\<open>generate_or_query\<close>\<close>

text \<open>
  The CSV reader is an external collaborator: the model starts from the rows it yields,
  each a list of raw cell strings. The two nested \<^verbatim>\<open>for\<close> loops append every non-blank
  stripped cell to \<^verbatim>\<open>serials\<close>; an empty result raises
  \<^verbatim>\<open>RuntimeError("CSV empty or unreadable.")\<close>.
\<close>

datatype error = RuntimeError string | IndexError

fun collect_row :: "string list \<Rightarrow> string list \<Rightarrow> string list" where
  "collect_row [] serials = serials"
| "collect_row (val # vals) serials =
     (let v = strip val in
      if v \<noteq> [] then collect_row vals (serials @ [v]) else collect_row vals serials)"

fun collect_rows :: "string list list \<Rightarrow> string list \<Rightarrow> string list" where
  "collect_rows [] serials = serials"
| "collect_rows (row # rows) serials = collect_rows rows (collect_row row serials)"

definition name_eq :: "string \<Rightarrow> string" where
  "name_eq s = ''name=='' @ [dquote] @ s @ [dquote]"

definition or_query :: "string list \<Rightarrow> string" where
  "or_query serials = ''('' @ join '' or '' (map name_eq serials) @ '')''"

definition generate_or_query :: "string list list \<Rightarrow> error + (string \<times> string list)" where
  "generate_or_query rows =
     (let serials = collect_rows rows [] in
      if serials = [] then Inl (RuntimeError ''CSV empty or unreadable.'')
      else Inr (or_query serials, serials))"

text \<open>
  The spec's round trip reads the identifiers back out of the expression. The script has
  no such reader; \<open>extract_ids\<close> follows the spec's words: the identifiers are the
  texts between successive pairs of double quotes. The flag says whether the scan is
  inside a quoted text, \<open>cur\<close> is the text read so far.
\<close>

fun extract_quoted :: "bool \<Rightarrow> string \<Rightarrow> string \<Rightarrow> string list" where
  "extract_quoted inside cur [] = []"
| "extract_quoted False cur (c # cs) =
     (if c = dquote then extract_quoted True [] cs else extract_quoted False cur cs)"
| "extract_quoted True cur (c # cs) =
     (if c = dquote then cur # extract_quoted False [] cs
      else extract_quoted True (cur @ [c]) cs)"

definition extract_ids :: "string \<Rightarrow> string list" where
  "extract_ids q = extract_quoted False [] q"

section \<open>The HTTP session, the console and the clock\<close>

text \<open>
  Everything the script does beyond computing values is an effect on the outside world:
  an HTTP request through the \<^verbatim>\<open>requests\<close> session, a line printed on the console, a
  \<^verbatim>\<open>time.sleep\<close>, a reading of \<^verbatim>\<open>time.time()\<close>. The model threads a state holding
  the chronological trace of these events and the clock.

  A JSON object of the server is a record of the keys the script reads. A key read with
  \<^verbatim>\<open>d.get(k)\<close> is a \<^typ>\<open>pyval\<close> (\<^const>\<open>PNone\<close> when absent); a key read with a
  default, \<^verbatim>\<open>d.get(k, default)\<close>, is a \<^typ>\<open>pyval option\<close>. Every body the script
  parses is taken to be a JSON object, and every list in it a list of objects: the type
  leaves out the bodies on which \<^verbatim>\<open>r.json()\<close> or \<^verbatim>\<open>.get\<close> would raise.
\<close>

record entry =
  e_id :: pyval
  e_name :: pyval
  e_version :: pyval

record action =
  a_ds_name :: "pyval option"
  a_ds_version :: "pyval option"
  a_execution :: "pyval option"
  a_createdAt :: "pyval option"

record body =
  b_content :: "entry list option"
  b_embedded :: "entry list option"
  b_actions :: "action list option"
  b_id :: pyval
  b_status :: pyval
  b_name :: pyval
  b_version :: pyval
  b_totalTargets :: "pyval option"
  b_totalTargetsCompleted :: "pyval option"
  b_totalTargetsFailed :: "pyval option"
  b_totalTargetsPending :: "pyval option"

text \<open>
  A response: \<^verbatim>\<open>r.status_code\<close>, \<^verbatim>\<open>r.text\<close>, \<^verbatim>\<open>r.json()\<close> and \<^verbatim>\<open>r.elapsed\<close>, the time
  the call blocked (no request of the script sets a timeout of its own).
\<close>

record response =
  status_code :: int
  resp_text :: string
  resp_json :: body
  elapsed :: nat

record filter_payload =
  fp_name :: string
  fp_query :: string

record rollout_payload =
  rp_name :: string
  rp_distributionSetId :: pyval
  rp_targetFilterQuery :: string
  rp_actionType :: string
  rp_amountGroups :: int
  rp_start :: string

text \<open>
  The requests the script sends, one constructor per URL pattern under
  \<^verbatim>\<open>{base_url}/rest/v1\<close>:
  \<^item> \<open>FindDistributionSet n v\<close>: GET \<^verbatim>\<open>/distributionsets?name==n;version==v\<close>
  \<^item> \<open>CreateTargetFilter p\<close>: POST \<^verbatim>\<open>/targetfilters\<close>
  \<^item> \<open>ListTargetFilters\<close>: GET \<^verbatim>\<open>/targetfilters\<close>
  \<^item> \<open>UpdateTargetFilter fid p\<close>: PUT \<^verbatim>\<open>/targetfilters/{fid}\<close>
  \<^item> \<open>CreateRollout p\<close>: POST \<^verbatim>\<open>/rollouts\<close>
  \<^item> \<open>GetRollout rid\<close>: GET \<^verbatim>\<open>/rollouts/{rid}\<close>
  \<^item> \<open>StartRollout rid\<close>: POST \<^verbatim>\<open>/rollouts/{rid}/start\<close>
  \<^item> \<open>GetAssignedDS t\<close>, \<open>GetInstalledDS t\<close>, \<open>GetActions t\<close>: GET
    \<^verbatim>\<open>/targets/{t}/assignedDS\<close>, \<^verbatim>\<open>/installedDS\<close>, \<^verbatim>\<open>/actions\<close>
\<close>

datatype request =
    FindDistributionSet string string
  | CreateTargetFilter filter_payload
  | ListTargetFilters
  | UpdateTargetFilter pyval filter_payload
  | CreateRollout rollout_payload
  | GetRollout pyval
  | StartRollout pyval
  | GetAssignedDS string
  | GetInstalledDS string
  | GetActions string

text \<open>The console lines, one constructor per \<^verbatim>\<open>print\<close> statement, with the values it formats,
  grouped by the component that prints them.\<close>

datatype resolver_msg =
    DSQueryFailed int
  | DSFound string string pyval
  | DSNotFound string string

datatype registrar_msg =
    FilterCreated string
  | FilterExistsUpdating string
  | FilterUpdated
  | FilterUpdateFailed int string
  | FilterIdNotFound
  | FilterCreationFailed int string

datatype creator_msg =
    RolloutPayload rollout_payload
  | RolloutCreated string pyval
  | RolloutExistsSkipping string
  | RolloutCreationFailed int string

datatype activator_msg =
    RolloutStatus pyval
  | ReadyTimeout
  | RolloutStarted pyval
  | RolloutStartFailed int string

datatype monitor_msg =
    MonitoringProgress
  | ProgressFetchFailed int
  | ProgressLine pyval pyval pyval pyval pyval
  | RolloutEnded pyval
  | TimeoutReached

datatype inspector_msg =
    AssignedDS pyval pyval
  | NoAssignedDS
  | AssignedDSError int
  | InstalledDS pyval pyval
  | NoInstalledDS
  | InstalledDSError int
  | HistoryError int
  | NoHistory
  | HistoryHeader string
  | HistoryLine pyval pyval pyval pyval
  | RuleLine

datatype driver_msg =
    AvailableSequences
  | SequenceKey string
  | InvalidSequence string "string list"
  | SerialSuffix string
  | QueryLine string
  | FilterStepFailed
  | StartingRollout nat nat string string
  | SkippingDSNotFound
  | RolloutNotCreated string
  | CheckingTargets
  | TargetLine string

datatype msg =
    Resolver resolver_msg
  | Registrar registrar_msg
  | Creator creator_msg
  | Activator activator_msg
  | Monitor monitor_msg
  | Inspector inspector_msg
  | Driver driver_msg

datatype event = Http request response | Printed msg | Slept nat

record state =
  trace :: "event list"
  clock :: nat

text \<open>
  The world answers a request given everything that happened before it: any server, and
  any network, is such a function.
\<close>

type_synonym world = "event list \<Rightarrow> request \<Rightarrow> response"

definition http :: "world \<Rightarrow> request \<Rightarrow> state \<Rightarrow> response \<times> state" where
  "http w q st =
     (let r = w (trace st) q in
      (r, st\<lparr>trace := trace st @ [Http q r], clock := clock st + elapsed r\<rparr>))"

definition py_print :: "msg \<Rightarrow> state \<Rightarrow> state" where
  "py_print m st = st\<lparr>trace := trace st @ [Printed m]\<rparr>"

definition sleep :: "nat \<Rightarrow> state \<Rightarrow> state" where
  "sleep d st = st\<lparr>trace := trace st @ [Slept d], clock := clock st + d\<rparr>"

definition get_or :: "pyval \<Rightarrow> pyval option \<Rightarrow> pyval" where
  "get_or d x = (case x of None \<Rightarrow> d | Some v \<Rightarrow> v)"

text \<open>
  \<^verbatim>\<open>data.get("content") or data.get("_embedded", {}).get(key, [])\<close>: the content list when
  it is present and non-empty, the embedded list otherwise.
\<close>

definition listing :: "body \<Rightarrow> entry list" where
  "listing data =
     (let emb = (case b_embedded data of None \<Rightarrow> [] | Some ys \<Rightarrow> ys) in
      case b_content data of
        None \<Rightarrow> emb
      | Some xs \<Rightarrow> if xs \<noteq> [] then xs else emb)"

section \<open>Identifier Resolver: \<^verbatim>\<open>get_distribution_set\<close>\<close>

definition get_distribution_set :: "world \<Rightarrow> string \<Rightarrow> string \<Rightarrow> state \<Rightarrow> pyval \<times> state" where
  "get_distribution_set w name version st =
     (let (r, st1) = http w (FindDistributionSet name version) st in
      if status_code r \<noteq> 200 then (PNone, py_print (Resolver (DSQueryFailed (status_code r))) st1)
      else
        (case find (\<lambda>ds. e_name ds = PStr name \<and> e_version ds = PStr version)
                (listing (resp_json r)) of
           Some ds \<Rightarrow> (e_id ds, py_print (Resolver (DSFound name version (e_id ds))) st1)
         | None \<Rightarrow> (PNone, py_print (Resolver (DSNotFound name version)) st1)))"

section \<open>Selection Registrar: \<^verbatim>\<open>create_target_filter\<close>\<close>

definition create_target_filter :: "world \<Rightarrow> string \<Rightarrow> string \<Rightarrow> state \<Rightarrow> bool \<times> state" where
  "create_target_filter w name query st =
     (let payload = \<lparr>fp_name = name, fp_query = query\<rparr>;
          (r, st1) = http w (CreateTargetFilter payload) st in
      if status_code r = 200 \<or> status_code r = 201 then
        (True, py_print (Registrar (FilterCreated name)) st1)
      else if status_code r = 409 then
        (let st2 = py_print (Registrar (FilterExistsUpdating name)) st1;
             (resp, st3) = http w ListTargetFilters st2;
             filters = listing (resp_json resp);
             fid = (case find (\<lambda>f. e_name f = PStr name) filters of
                      Some f \<Rightarrow> e_id f
                    | None \<Rightarrow> PNone) in
         if truthy fid then
           (let (u, st4) = http w (UpdateTargetFilter fid payload) st3 in
            if status_code u = 200 \<or> status_code u = 204 then
              (True, py_print (Registrar FilterUpdated) st4)
            else
              (False, py_print (Registrar (FilterUpdateFailed (status_code u) (resp_text u))) st4))
         else (False, py_print (Registrar FilterIdNotFound) st3))
      else (False, py_print (Registrar (FilterCreationFailed (status_code r) (resp_text r))) st1))"

section \<open>Rollout Creator: \<^verbatim>\<open>create_rollout\<close>\<close>

definition create_rollout ::
  "world \<Rightarrow> string \<Rightarrow> string \<Rightarrow> pyval \<Rightarrow> int \<Rightarrow> string \<Rightarrow> state \<Rightarrow> pyval \<times> state" where
  "create_rollout w name query ds_id group_size action_type st =
     (let payload = \<lparr>rp_name = name, rp_distributionSetId = ds_id,
                      rp_targetFilterQuery = query, rp_actionType = action_type,
                      rp_amountGroups = group_size, rp_start = ''auto''\<rparr>;
          st0 = py_print (Creator (RolloutPayload payload)) st;
          (r, st1) = http w (CreateRollout payload) st0 in
      if status_code r = 200 \<or> status_code r = 201 then
        (let rid = b_id (resp_json r) in (rid, py_print (Creator (RolloutCreated name rid)) st1))
      else if status_code r = 409 then
        (PNone, py_print (Creator (RolloutExistsSkipping name)) st1)
      else (PNone, py_print (Creator (RolloutCreationFailed (status_code r) (resp_text r))) st1))"

section \<open>Rollout Activator: \<^verbatim>\<open>start_rollout\<close>\<close>

text \<open>
  \<open>wait_ready n\<close> is the \<^verbatim>\<open>for attempt in range(20)\<close> loop with \<open>n\<close> attempts left. It
  returns \<open>True\<close> when the loop left through \<^verbatim>\<open>break\<close>, \<open>False\<close> when it ran out and
  the \<^verbatim>\<open>else\<close> clause of the loop applies.
\<close>

fun wait_ready :: "nat \<Rightarrow> world \<Rightarrow> pyval \<Rightarrow> state \<Rightarrow> bool \<times> state" where
  "wait_ready 0 w rollout_id st = (False, st)"
| "wait_ready (Suc n) w rollout_id st =
     (let (r, st1) = http w (GetRollout rollout_id) st in
      if status_code r = 200 then
        (let st2 = py_print (Activator (RolloutStatus (b_status (resp_json r)))) st1 in
         if b_status (resp_json r) = PStr ''ready'' then (True, st2)
         else wait_ready n w rollout_id (sleep 5 st2))
      else wait_ready n w rollout_id (sleep 5 st1))"

definition start_rollout :: "world \<Rightarrow> pyval \<Rightarrow> state \<Rightarrow> state" where
  "start_rollout w rollout_id st =
     (if \<not> truthy rollout_id then st
      else
        (let (ready, st1) = wait_ready 20 w rollout_id st in
         if \<not> ready then py_print (Activator ReadyTimeout) st1
         else
           (let (r, st2) = http w (StartRollout rollout_id) st1 in
            if status_code r = 200 \<or> status_code r = 202 then
              py_print (Activator (RolloutStarted rollout_id)) st2
            else py_print (Activator (RolloutStartFailed (status_code r) (resp_text r))) st2)))"

section \<open>Rollout Monitor: \<^verbatim>\<open>monitor_rollout_until_done\<close>\<close>

text \<open>
  The \<^verbatim>\<open>while True\<close> loop may run forever (a server that never answers 200), so the loop
  takes fuel, one unit per poll, and \<open>None\<close> means the fuel ran out before the loop
  left. The model follows runs without a keyboard interrupt.
\<close>

definition terminal_status :: "pyval \<Rightarrow> bool" where
  "terminal_status s = (s \<in> set [PStr ''finished'', PStr ''error'', PStr ''paused''])"

fun monitor_loop ::
  "nat \<Rightarrow> world \<Rightarrow> pyval \<Rightarrow> nat \<Rightarrow> nat \<Rightarrow> nat \<Rightarrow> state \<Rightarrow> state option" where
  "monitor_loop 0 w rollout_id interval timeout start_time st = None"
| "monitor_loop (Suc fuel) w rollout_id interval timeout start_time st =
     (let (r, st1) = http w (GetRollout rollout_id) st in
      if status_code r \<noteq> 200 then
        monitor_loop fuel w rollout_id interval timeout start_time
          (sleep interval (py_print (Monitor (ProgressFetchFailed (status_code r))) st1))
      else
        (let data = resp_json r;
             status = b_status data;
             st2 = py_print (Monitor (ProgressLine status
                     (get_or (PInt 0) (b_totalTargetsCompleted data))
                     (get_or (PInt 0) (b_totalTargetsFailed data))
                     (get_or (PInt 0) (b_totalTargetsPending data))
                     (get_or (PInt 0) (b_totalTargets data)))) st1 in
         if terminal_status status then Some (py_print (Monitor (RolloutEnded status)) st2)
         else if timeout < clock st2 - start_time then Some (py_print (Monitor TimeoutReached) st2)
         else monitor_loop fuel w rollout_id interval timeout start_time (sleep interval st2)))"

definition monitor_rollout_until_done ::
  "nat \<Rightarrow> world \<Rightarrow> pyval \<Rightarrow> nat \<Rightarrow> nat \<Rightarrow> state \<Rightarrow> state option" where
  "monitor_rollout_until_done fuel w rollout_id interval timeout st =
     (let st0 = py_print (Monitor MonitoringProgress) st;
          start_time = clock st0 in
      monitor_loop fuel w rollout_id interval timeout start_time st0)"

text \<open>
  A caller that goes on after the monitor needs the state in which a monitor ran out of
  fuel as well. \<open>monitor_run\<close> is the same loop with that state in its result:
  \<open>Returned\<close> the state in which the function returned, \<open>OutOfFuel\<close> the state
  reached when the fuel ran out.
\<close>

datatype run = Returned state | OutOfFuel state

fun run_state :: "run \<Rightarrow> state" where
  "run_state (Returned st) = st"
| "run_state (OutOfFuel st) = st"

fun monitor_run ::
  "nat \<Rightarrow> world \<Rightarrow> pyval \<Rightarrow> nat \<Rightarrow> nat \<Rightarrow> nat \<Rightarrow> state \<Rightarrow> run" where
  "monitor_run 0 w rollout_id interval timeout start_time st = OutOfFuel st"
| "monitor_run (Suc fuel) w rollout_id interval timeout start_time st =
     (let (r, st1) = http w (GetRollout rollout_id) st in
      if status_code r \<noteq> 200 then
        monitor_run fuel w rollout_id interval timeout start_time
          (sleep interval (py_print (Monitor (ProgressFetchFailed (status_code r))) st1))
      else
        (let data = resp_json r;
             status = b_status data;
             st2 = py_print (Monitor (ProgressLine status
                     (get_or (PInt 0) (b_totalTargetsCompleted data))
                     (get_or (PInt 0) (b_totalTargetsFailed data))
                     (get_or (PInt 0) (b_totalTargetsPending data))
                     (get_or (PInt 0) (b_totalTargets data)))) st1 in
         if terminal_status status then Returned (py_print (Monitor (RolloutEnded status)) st2)
         else if timeout < clock st2 - start_time then Returned (py_print (Monitor TimeoutReached) st2)
         else monitor_run fuel w rollout_id interval timeout start_time (sleep interval st2)))"

definition monitor_rollout_run ::
  "nat \<Rightarrow> world \<Rightarrow> pyval \<Rightarrow> nat \<Rightarrow> nat \<Rightarrow> state \<Rightarrow> run" where
  "monitor_rollout_run fuel w rollout_id interval timeout st =
     (let st0 = py_print (Monitor MonitoringProgress) st;
          start_time = clock st0 in
      monitor_run fuel w rollout_id interval timeout start_time st0)"

section \<open>Device Status Inspector\<close>

definition get_assigned_ds :: "world \<Rightarrow> string \<Rightarrow> state \<Rightarrow> bool \<times> state" where
  "get_assigned_ds w target_id st =
     (let (r, st1) = http w (GetAssignedDS target_id) st in
      if status_code r = 200 then
        (True, py_print (Inspector (AssignedDS (b_name (resp_json r)) (b_version (resp_json r)))) st1)
      else if status_code r = 204 then (False, py_print (Inspector NoAssignedDS) st1)
      else (False, py_print (Inspector (AssignedDSError (status_code r))) st1))"

definition get_installed_ds :: "world \<Rightarrow> string \<Rightarrow> state \<Rightarrow> bool \<times> state" where
  "get_installed_ds w target_id st =
     (let (r, st1) = http w (GetInstalledDS target_id) st in
      if status_code r = 200 then
        (True, py_print (Inspector (InstalledDS (b_name (resp_json r)) (b_version (resp_json r)))) st1)
      else if status_code r = 204 then (False, py_print (Inspector NoInstalledDS) st1)
      else (False, py_print (Inspector (InstalledDSError (status_code r))) st1))"

fun print_actions :: "action list \<Rightarrow> state \<Rightarrow> state" where
  "print_actions [] st = st"
| "print_actions (act # acts) st =
     print_actions acts
       (py_print (Inspector (HistoryLine (get_or (PStr ''Unknown'') (a_ds_name act))
                    (get_or (PStr ''N/A'') (a_ds_version act))
                    (get_or (PStr ''N/A'') (a_execution act))
                    (get_or (PStr ''N/A'') (a_createdAt act)))) st)"

definition get_firmware_history :: "world \<Rightarrow> string \<Rightarrow> state \<Rightarrow> state" where
  "get_firmware_history w target_id st =
     (let (r, st1) = http w (GetActions target_id) st in
      if status_code r \<noteq> 200 then py_print (Inspector (HistoryError (status_code r))) st1
      else
        (let actions = (case b_actions (resp_json r) of None \<Rightarrow> [] | Some xs \<Rightarrow> xs) in
         if actions = [] then py_print (Inspector NoHistory) st1
         else py_print (Inspector RuleLine)
                (print_actions actions
                   (py_print (Inspector RuleLine) (py_print (Inspector (HistoryHeader target_id)) st1)))))"

section \<open>Sequence Driver: \<^verbatim>\<open>main\<close>\<close>

text \<open>\<^verbatim>\<open>str(idx)\<close> for the position of a bundle, and \<^verbatim>\<open>s[-5:]\<close>.\<close>

fun str_nat :: "nat \<Rightarrow> string" where
  "str_nat n =
     (if n < 10 then [char_of (48 + n)]
      else str_nat (n div 10) @ [char_of (48 + n mod 10)])"

declare str_nat.simps [simp del]

definition last_chars :: "nat \<Rightarrow> string \<Rightarrow> string" where
  "last_chars k s = drop (length s - k) s"

definition ROLLOUT_PREFIX :: string where
  "ROLLOUT_PREFIX = ''Rollout_Seq''"

definition FILTER_NAME :: string where
  "FILTER_NAME = ''Target_filter''"

definition rollout_name :: "string \<Rightarrow> string \<Rightarrow> nat \<Rightarrow> string" where
  "rollout_name seq_choice serial_suffix idx =
     ROLLOUT_PREFIX @ ''_'' @ seq_choice @ ''_'' @ serial_suffix @ ''_'' @ str_nat idx"

record bundle_ref =
  ds_name :: string
  ds_version :: string

text \<open>
  The configuration: the polling interval and timeout, and the sequences, a JSON object
  from sequence key to the ordered list of bundles (an association list with distinct
  keys).
\<close>

record config =
  poll_interval :: nat
  poll_timeout :: nat
  sequences :: "(string \<times> bundle_ref list) list"

text \<open>
  \<open>main_loop\<close> is the loop \<^verbatim>\<open>for idx, ds in enumerate(..., start=1)\<close> over the bundles
  that are left, \<open>idx\<close> the position of the first of them and \<open>n_total\<close> the length of the
  whole sequence. Each monitor gets the same fuel; when one runs out of it, the loop is
  still inside that monitor, and the result is \<open>OutOfFuel\<close> with the state reached.
\<close>

fun main_loop ::
  "nat \<Rightarrow> world \<Rightarrow> string \<Rightarrow> string \<Rightarrow> string \<Rightarrow> nat \<Rightarrow> nat \<Rightarrow> nat \<Rightarrow> nat \<Rightarrow> bundle_ref list
     \<Rightarrow> state \<Rightarrow> run" where
  "main_loop fuel w seq_choice serial_suffix query interval timeout n_total idx [] st = Returned st"
| "main_loop fuel w seq_choice serial_suffix query interval timeout n_total idx (ds # rest) st =
     (let st1 = py_print (Driver (StartingRollout idx n_total (ds_name ds) (ds_version ds))) st;
          (ds_id, st2) = get_distribution_set w (ds_name ds) (ds_version ds) st1 in
      if \<not> truthy ds_id then
        main_loop fuel w seq_choice serial_suffix query interval timeout n_total (Suc idx) rest
          (py_print (Driver SkippingDSNotFound) st2)
      else
        (let name = rollout_name seq_choice serial_suffix idx;
             (rollout_id, st3) = create_rollout w name query ds_id 1 ''forced'' st2 in
         if truthy rollout_id then
           (case monitor_rollout_run fuel w rollout_id interval timeout
                   (start_rollout w rollout_id st3) of
              OutOfFuel st5 \<Rightarrow> OutOfFuel st5
            | Returned st5 \<Rightarrow>
                main_loop fuel w seq_choice serial_suffix query interval timeout n_total
                  (Suc idx) rest st5)
         else
           main_loop fuel w seq_choice serial_suffix query interval timeout n_total (Suc idx) rest
             (py_print (Driver (RolloutNotCreated name)) st3)))"

fun check_targets :: "world \<Rightarrow> string list \<Rightarrow> state \<Rightarrow> state" where
  "check_targets w [] st = st"
| "check_targets w (target # targets) st =
     (let st1 = py_print (Driver (TargetLine target)) st;
          st2 = snd (get_assigned_ds w target st1);
          st3 = snd (get_installed_ds w target st2);
          st4 = get_firmware_history w target st3 in
      check_targets w targets (py_print (Inspector RuleLine) st4))"

text \<open>
  \<open>main\<close> from the prompt on: \<open>typed\<close> is the line the operator enters, \<open>rows\<close> the rows
  of the device CSV. The result is \<open>Inl\<close> an uncaught exception, \<open>Inr (Returned st)\<close>
  the final state of a run that returned, and \<open>Inr (OutOfFuel st)\<close> the state reached
  inside a monitor that ran out of fuel.
\<close>

definition main ::
  "nat \<Rightarrow> world \<Rightarrow> config \<Rightarrow> string \<Rightarrow> string list list \<Rightarrow> state \<Rightarrow> error + run" where
  "main fuel w cfg typed rows st =
     (let st0 = fold (\<lambda>k. py_print (Driver (SequenceKey k))) (map fst (sequences cfg))
                  (py_print (Driver AvailableSequences) st);
          seq_choice = strip typed in
      case map_of (sequences cfg) seq_choice of
        None \<Rightarrow>
          Inr (Returned (py_print (Driver (InvalidSequence seq_choice (map fst (sequences cfg)))) st0))
      | Some bundles \<Rightarrow>
          (case generate_or_query rows of
             Inl e \<Rightarrow> Inl e
           | Inr (query, serials) \<Rightarrow>
               (case serials of
                  [] \<Rightarrow> Inl IndexError
                | first # _ \<Rightarrow>
                    (let serial_suffix = last_chars 5 first;
                         st1 = py_print (Driver (QueryLine query))
                                 (py_print (Driver (SerialSuffix serial_suffix)) st0);
                         (ok, st2) = create_target_filter w FILTER_NAME query st1 in
                     if \<not> ok then Inr (Returned (py_print (Driver FilterStepFailed) st2))
                     else
                       (case main_loop fuel w seq_choice serial_suffix query
                               (poll_interval cfg) (poll_timeout cfg) (length bundles) 1 bundles st2 of
                          OutOfFuel st3 \<Rightarrow> Inr (OutOfFuel st3)
                        | Returned st3 \<Rightarrow>
                            Inr (Returned
                              (check_targets w serials (py_print (Driver CheckingTargets) st3))))))))"

section \<open>Sample servers\<close>

text \<open>
  Concrete responses, worlds and states, for running the script's functions on explicit
  inputs. \<open>always r\<close> is the world that answers every request with \<open>r\<close>.
\<close>

definition empty_body :: body where
  "empty_body = \<lparr>b_content = None, b_embedded = None, b_actions = None, b_id = PNone,
     b_status = PNone, b_name = PNone, b_version = PNone, b_totalTargets = None,
     b_totalTargetsCompleted = None, b_totalTargetsFailed = None,
     b_totalTargetsPending = None\<rparr>"

definition reply :: "int \<Rightarrow> body \<Rightarrow> response" where
  "reply code data = \<lparr>status_code = code, resp_text = [], resp_json = data, elapsed = 0\<rparr>"

definition init_state :: state where
  "init_state = \<lparr>trace = [], clock = 0\<rparr>"

definition always :: "response \<Rightarrow> world" where
  "always r tr q = r"

text \<open>Three distribution sets: two of one name, two of one version.\<close>

definition fw_entries :: "entry list" where
  "fw_entries =
     [\<lparr>e_id = PInt 41, e_name = PStr ''fw'', e_version = PStr ''1.0''\<rparr>,
      \<lparr>e_id = PInt 42, e_name = PStr ''fw'', e_version = PStr ''1.1''\<rparr>,
      \<lparr>e_id = PInt 43, e_name = PStr ''fw-beta'', e_version = PStr ''1.1''\<rparr>]"

text \<open>
  A device with an installed bundle and none assigned; the server fails on every other
  device.
\<close>

fun device_world :: world where
  "device_world tr (GetAssignedDS t) =
     (if t = ''SN00001'' then reply 204 empty_body else reply 500 empty_body)"
| "device_world tr (GetInstalledDS t) =
     (if t = ''SN00001''
      then reply 200 (empty_body\<lparr>b_name := PStr ''fw'', b_version := PStr ''1.1''\<rparr>)
      else reply 500 empty_body)"
| "device_world tr q = reply 404 empty_body"

section \<open>Observations on a trace\<close>

text \<open>
  What a run did is read off its trace: the requests sent, in order; the responses to the
  polls of a rollout; the durations slept. A poll observes readiness when it is answered
  200 with status \<^verbatim>\<open>ready\<close>.
\<close>

fun request_of :: "event \<Rightarrow> request list" where
  "request_of (Http q r) = [q]"
| "request_of e = []"

definition requests :: "event list \<Rightarrow> request list" where
  "requests evs = concat (map request_of evs)"

fun poll_of :: "pyval \<Rightarrow> event \<Rightarrow> response list" where
  "poll_of rid (Http q r) = (if q = GetRollout rid then [r] else [])"
| "poll_of rid e = []"

definition polls :: "pyval \<Rightarrow> event list \<Rightarrow> response list" where
  "polls rid evs = concat (map (poll_of rid) evs)"

fun sleep_of :: "event \<Rightarrow> nat list" where
  "sleep_of (Slept d) = [d]"
| "sleep_of e = []"

definition sleeps :: "event list \<Rightarrow> nat list" where
  "sleeps evs = concat (map sleep_of evs)"

definition observes_ready :: "response \<Rightarrow> bool" where
  "observes_ready r = (status_code r = 200 \<and> b_status (resp_json r) = PStr ''ready'')"

section \<open>Sample rollouts\<close>

definition creating :: response where
  "creating = reply 200 (empty_body\<lparr>b_status := PStr ''creating''\<rparr>)"

definition ready_reply :: response where
  "ready_reply = reply 200 (empty_body\<lparr>b_status := PStr ''ready''\<rparr>)"


definition running :: response where
  "running = reply 200 (empty_body\<lparr>b_status := PStr ''running''\<rparr>)"

definition finished :: response where
  "finished = reply 200 (empty_body\<lparr>b_status := PStr ''finished''\<rparr>)"

text \<open>A rollout that reports \<^verbatim>\<open>running\<close> twice and \<^verbatim>\<open>finished\<close> from the third poll on.\<close>

fun finishing_world :: world where
  "finishing_world tr (GetRollout rid) = (if 2 \<le> length (polls rid tr) then finished else running)"
| "finishing_world tr q = reply 404 empty_body"

text \<open>A running rollout on a slow network: each request takes 100 time units.\<close>

definition slow_running :: response where
  "slow_running = running\<lparr>elapsed := 100\<rparr>"

section \<open>Observations on the Sequence Driver\<close>

text \<open>
  The payloads of the rollout-creation requests of a trace, and the lines printed, both in
  order.
\<close>

fun create_of :: "request \<Rightarrow> rollout_payload list" where
  "create_of (CreateRollout p) = [p]"
| "create_of q = []"

definition created :: "event list \<Rightarrow> rollout_payload list" where
  "created evs = concat (map create_of (requests evs))"

fun print_of :: "event \<Rightarrow> msg list" where
  "print_of (Printed m) = [m]"
| "print_of e = []"

definition printed :: "event list \<Rightarrow> msg list" where
  "printed evs = concat (map print_of evs)"

text \<open>
  The bundle queries of a trace, in order: the name and version asked for, and the
  identifier that the answer recorded in the trace resolves to (\<open>resolved_id\<close>, what
  \<open>get_distribution_set\<close> returns on that answer).
\<close>

definition resolved_id :: "string \<Rightarrow> string \<Rightarrow> response \<Rightarrow> pyval" where
  "resolved_id name version r =
     (if status_code r \<noteq> 200 then PNone
      else case find (\<lambda>ds. e_name ds = PStr name \<and> e_version ds = PStr version)
                  (listing (resp_json r)) of
             Some ds \<Rightarrow> e_id ds
           | None \<Rightarrow> PNone)"

fun resolution_of :: "event \<Rightarrow> ((string \<times> string) \<times> pyval) list" where
  "resolution_of (Http (FindDistributionSet n v) r) = [((n, v), resolved_id n v r)]"
| "resolution_of e = []"

definition resolutions :: "event list \<Rightarrow> ((string \<times> string) \<times> pyval) list" where
  "resolutions evs = concat (map resolution_of evs)"

text \<open>
  What claim C10 says of the rollout of the bundle at position \<open>k\<close>: its payload, given
  the identifier the bundle resolved to. \<open>expected_creates k rs\<close> lists these payloads
  for the resolutions \<open>rs\<close> of the bundles at positions \<open>k\<close>, \<open>k + 1\<close>, ...: one for each
  bundle that resolved to an identifier, none for the others.
\<close>

definition position_payload :: "string \<Rightarrow> string \<Rightarrow> string \<Rightarrow> nat \<Rightarrow> pyval \<Rightarrow> rollout_payload" where
  "position_payload seq_choice serial_suffix query k ds_id =
     \<lparr>rp_name = ''Rollout_Seq_'' @ seq_choice @ ''_'' @ serial_suffix @ ''_'' @ str_nat k,
      rp_distributionSetId = ds_id,
      rp_targetFilterQuery = query,
      rp_actionType = ''forced'',
      rp_amountGroups = 1,
      rp_start = ''auto''\<rparr>"

fun expected_creates ::
  "string \<Rightarrow> string \<Rightarrow> string \<Rightarrow> nat \<Rightarrow> ((string \<times> string) \<times> pyval) list \<Rightarrow> rollout_payload list" where
  "expected_creates seq_choice serial_suffix query k [] = []"
| "expected_creates seq_choice serial_suffix query k ((b, ds_id) # rs) =
     (if truthy ds_id then [position_payload seq_choice serial_suffix query k ds_id] else [])
     @ expected_creates seq_choice serial_suffix query (Suc k) rs"

section \<open>Sample runs of the Sequence Driver\<close>

text \<open>
  The end-to-end scenario of the spec, with one more bundle in front: the sequence \<^verbatim>\<open>1.1\<close>
  holds \<^verbatim>\<open>fw\<close> 0.9, which the server does not list, and \<^verbatim>\<open>fw\<close> 1.1; two devices. The
  filter and the rollout are created, the rollout is ready when it is first polled, the
  start is accepted, and every later poll sees it \<^verbatim>\<open>finished\<close>.
\<close>

definition sample_config :: config where
  "sample_config = \<lparr>poll_interval = 10, poll_timeout = 1800,
     sequences = [(''1.1'', [\<lparr>ds_name = ''fw'', ds_version = ''0.9''\<rparr>,
                            \<lparr>ds_name = ''fw'', ds_version = ''1.1''\<rparr>])]\<rparr>"

fun happy_world :: world where
  "happy_world tr (FindDistributionSet n v) = reply 200 (empty_body\<lparr>b_content := Some fw_entries\<rparr>)"
| "happy_world tr (CreateTargetFilter p) = reply 201 empty_body"
| "happy_world tr (CreateRollout p) = reply 201 (empty_body\<lparr>b_id := PInt 7\<rparr>)"
| "happy_world tr (GetRollout rid) = (if polls rid tr = [] then ready_reply else finished)"
| "happy_world tr (StartRollout rid) = reply 202 empty_body"
| "happy_world tr (GetAssignedDS t) = reply 204 empty_body"
| "happy_world tr (GetInstalledDS t) =
     reply 200 (empty_body\<lparr>b_name := PStr ''fw'', b_version := PStr ''1.1''\<rparr>)"
| "happy_world tr q = reply 200 empty_body"

text \<open>
  A rollout that is created but never leaves \<^verbatim>\<open>creating\<close>: it is never ready and never
  in a terminal status. And a server on which every poll of a rollout fails: no
  activation sees \<^verbatim>\<open>ready\<close> and no monitor ends.
\<close>

fun stuck_world :: world where
  "stuck_world tr (FindDistributionSet n v) = reply 200 (empty_body\<lparr>b_content := Some fw_entries\<rparr>)"
| "stuck_world tr (CreateRollout p) = reply 201 (empty_body\<lparr>b_id := PInt 7\<rparr>)"
| "stuck_world tr (GetRollout rid) = creating"
| "stuck_world tr q = reply 404 empty_body"

fun down_world :: world where
  "down_world tr (FindDistributionSet n v) = reply 200 (empty_body\<lparr>b_content := Some fw_entries\<rparr>)"
| "down_world tr (CreateRollout p) = reply 201 (empty_body\<lparr>b_id := PInt 7\<rparr>)"
| "down_world tr q = reply 500 empty_body"

definition fw_1_1 :: bundle_ref where
  "fw_1_1 = \<lparr>ds_name = ''fw'', ds_version = ''1.1''\<rparr>"

definition fw_1_0 :: bundle_ref where
  "fw_1_0 = \<lparr>ds_name = ''fw'', ds_version = ''1.0''\<rparr>"

text \<open>The states after resolving \<open>fw_1_1\<close> and after creating its rollout, on a world.\<close>

definition resolved_on :: "world \<Rightarrow> pyval \<times> state" where
  "resolved_on w = get_distribution_set w (ds_name fw_1_1) (ds_version fw_1_1)
     (py_print (Driver (StartingRollout 1 2 (ds_name fw_1_1) (ds_version fw_1_1))) init_state)"

definition created_on :: "world \<Rightarrow> pyval \<times> state" where
  "created_on w = create_rollout w (rollout_name ''1.1'' ''00001'' 1) ''q''
     (fst (resolved_on w)) 1 ''forced'' (snd (resolved_on w))"

text \<open>
  A list in which the first entry of the requested name and version carries no
  identifier.
\<close>

definition unidentified_entries :: "entry list" where
  "unidentified_entries =
     [\<lparr>e_id = PNone, e_name = PStr ''fw'', e_version = PStr ''1.1''\<rparr>,
      \<lparr>e_id = PInt 42, e_name = PStr ''fw'', e_version = PStr ''1.1''\<rparr>]"

section \<open>A reference server for target filters\<close>

text \<open>
  A reference server for the target-filter endpoints, after the REST contract of the
  spec: creation answers 201, or 409 when the name is taken; the list answers 200 with
  every filter; an update answers 200 and replaces the expression of the filter with that
  identifier. Its store is replayed from the answers recorded in the trace.
\<close>

record stored_filter =
  sf_id :: int
  sf_name :: string
  sf_query :: string

fun filter_store_step :: "stored_filter list \<Rightarrow> event \<Rightarrow> stored_filter list" where
  "filter_store_step fs (Http (CreateTargetFilter p) r) =
     (if status_code r = 201
      then fs @ [\<lparr>sf_id = int (length fs) + 1, sf_name = fp_name p, sf_query = fp_query p\<rparr>]
      else fs)"
| "filter_store_step fs (Http (UpdateTargetFilter fid p) r) =
     (if status_code r = 200
      then map (\<lambda>f. if PInt (sf_id f) = fid then f\<lparr>sf_query := fp_query p\<rparr> else f) fs
      else fs)"
| "filter_store_step fs e = fs"

definition filter_store :: "event list \<Rightarrow> stored_filter list" where
  "filter_store tr = foldl filter_store_step [] tr"

definition filter_entry :: "stored_filter \<Rightarrow> entry" where
  "filter_entry f = \<lparr>e_id = PInt (sf_id f), e_name = PStr (sf_name f), e_version = PNone\<rparr>"

fun filter_server :: world where
  "filter_server tr (CreateTargetFilter p) =
     (if list_ex (\<lambda>f. sf_name f = fp_name p) (filter_store tr)
      then reply 409 empty_body else reply 201 empty_body)"
| "filter_server tr ListTargetFilters =
     reply 200 (empty_body\<lparr>b_content := Some (map filter_entry (filter_store tr))\<rparr>)"
| "filter_server tr (UpdateTargetFilter fid p) =
     (if list_ex (\<lambda>f. PInt (sf_id f) = fid) (filter_store tr)
      then reply 200 empty_body else reply 404 empty_body)"
| "filter_server tr q = reply 404 empty_body"

definition stored_query :: "event list \<Rightarrow> string \<Rightarrow> string option" where
  "stored_query tr name = map_option sf_query (find (\<lambda>f. sf_name f = name) (filter_store tr))"

section \<open>Properties of the Selection Query Builder\<close>

lemma collect_row_eq:
  "collect_row vals serials = serials @ filter (\<lambda>v. v \<noteq> []) (map strip vals)"
  by (induction vals arbitrary: serials) (simp_all add: Let_def)

lemma collect_rows_eq:
  "collect_rows rows serials = serials @ filter (\<lambda>v. v \<noteq> []) (map strip (concat rows))"
  by (induction rows arbitrary: serials) (simp_all add: collect_row_eq)

lemma extract_outside_skip:
  "dquote \<notin> set t \<Longrightarrow> extract_quoted False cur (t @ rest) = extract_quoted False cur rest"
  by (induction t) auto

lemma extract_inside_read:
  "dquote \<notin> set s \<Longrightarrow>
     extract_quoted True cur (s @ dquote # rest) = (cur @ s) # extract_quoted False [] rest"
  by (induction s arbitrary: cur) auto

lemma dquote_notin_literals:
  "dquote \<notin> set ''name==''" "dquote \<notin> set '' or ''" "dquote \<notin> set '')''" "dquote \<notin> set ''(''"
  by (simp_all add: dquote_def)

lemma extract_name_eq:
  "dquote \<notin> set s \<Longrightarrow>
     extract_quoted False cur (name_eq s @ rest) = s # extract_quoted False [] rest"
proof -
  assume s: "dquote \<notin> set s"
  have "extract_quoted False cur (name_eq s @ rest)
        = extract_quoted False cur (''name=='' @ (dquote # (s @ dquote # rest)))"
    by (simp add: name_eq_def)
  also have "\<dots> = extract_quoted False cur (dquote # (s @ dquote # rest))"
    by (rule extract_outside_skip) (rule dquote_notin_literals)
  also have "\<dots> = extract_quoted True [] (s @ dquote # rest)"
    by simp
  also have "\<dots> = s # extract_quoted False [] rest"
    using extract_inside_read [OF s, of "[]" rest] by simp
  finally show ?thesis .
qed

lemma extract_join:
  "\<forall>s \<in> set serials. dquote \<notin> set s \<Longrightarrow>
     extract_quoted False cur (join '' or '' (map name_eq serials) @ '')'') = serials"
proof (induction serials arbitrary: cur rule: induct_list012)
  case 1
  show ?case by (simp add: dquote_def)
next
  case (2 x)
  then have "dquote \<notin> set x" by simp
  then show ?case
    using extract_name_eq [of x cur "'')''"] by (simp add: dquote_def)
next
  case (3 x y zs)
  then have x: "dquote \<notin> set x" and rest: "\<forall>s \<in> set (y # zs). dquote \<notin> set s"
    by simp_all
  have "extract_quoted False cur (join '' or '' (map name_eq (x # y # zs)) @ '')'')
        = extract_quoted False cur
            (name_eq x @ ('' or '' @ (join '' or '' (map name_eq (y # zs)) @ '')'')))"
    by simp
  also have "\<dots> = x # extract_quoted False []
            ('' or '' @ (join '' or '' (map name_eq (y # zs)) @ '')''))"
    by (rule extract_name_eq [OF x])
  also have "\<dots> = x # extract_quoted False [] (join '' or '' (map name_eq (y # zs)) @ '')'')"
    using extract_outside_skip [OF dquote_notin_literals(2)] by simp
  also have "\<dots> = x # y # zs"
    using "3.IH"(2) [OF rest] by simp
  finally show ?case .
qed

lemma extract_or_query:
  assumes "\<forall>s \<in> set serials. dquote \<notin> set s"
  shows "extract_ids (or_query serials) = serials"
proof -
  have "extract_ids (or_query serials)
        = extract_quoted False [] (''('' @ (join '' or '' (map name_eq serials) @ '')''))"
    by (simp add: extract_ids_def or_query_def)
  also have "\<dots> = extract_quoted False [] (join '' or '' (map name_eq serials) @ '')'')"
    by (rule extract_outside_skip) (rule dquote_notin_literals)
  also have "\<dots> = serials"
    by (rule extract_join [OF assms])
  finally show ?thesis .
qed

lemma strip_blank_iff: "strip v = [] \<longleftrightarrow> (\<forall>c \<in> set v. is_space c)"
proof
  assume "strip v = []"
  then have "dropWhile is_space (rev (dropWhile is_space v)) = []"
    by (simp add: strip_def)
  then have "\<forall>c \<in> set (dropWhile is_space v). is_space c"
    by simp
  moreover have "dropWhile is_space v \<noteq> [] \<Longrightarrow> \<not> is_space (hd (dropWhile is_space v))"
    by (rule hd_dropWhile)
  ultimately have "dropWhile is_space v = []"
    by (cases "dropWhile is_space v") auto
  then show "\<forall>c \<in> set v. is_space c"
    by simp
next
  assume "\<forall>c \<in> set v. is_space c"
  then show "strip v = []"
    by (auto simp: strip_def dest: set_dropWhileD)
qed

lemma serials_empty_iff:
  "collect_rows rows [] = [] \<longleftrightarrow> (\<forall>v \<in> set (concat rows). \<forall>c \<in> set v. is_space c)"
proof -
  have "collect_rows rows [] = [] \<longleftrightarrow> (\<forall>v \<in> set (concat rows). strip v = [])"
    by (auto simp: collect_rows_eq filter_empty_conv)
  then show ?thesis
    by (simp add: strip_blank_iff)
qed

lemma strip_examples:
  "strip '' SN00001'' = ''SN00001''" "strip ''SN00002 '' = ''SN00002''"
  "strip ''SN00001'' = ''SN00001''" "strip ''  '' = []"
  by (simp_all add: strip_def is_space_def)

text \<open>
  Claim C7, as amended. Let \<open>serials\<close> be the device identifiers of the CSV rows after
  trimming, blanks removed. When the list is non-empty and no identifier contains a double
  quote, \<open>generate_or_query\<close> returns the parenthesized expression
  \<^verbatim>\<open>(name=="A" or name=="B" or ...)\<close> together with \<open>serials\<close>, and reading the quoted
  texts back out of the expression yields \<open>serials\<close> itself: same order, duplicates kept.
\<close>

theorem or_query_round_trip:
  assumes "serials = filter (\<lambda>v. v \<noteq> []) (map strip (concat rows))"
      and "serials \<noteq> []"
      and "\<forall>s \<in> set serials. dquote \<notin> set s"
  shows "generate_or_query rows
           = Inr (''('' @ join '' or '' (map name_eq serials) @ '')'', serials)
         \<and> extract_ids (''('' @ join '' or '' (map name_eq serials) @ '')'') = serials"
proof -
  have "collect_rows rows [] = serials"
    using assms(1) by (simp add: collect_rows_eq)
  then have "generate_or_query rows = Inr (or_query serials, serials)"
    using assms(2) by (simp add: generate_or_query_def Let_def)
  moreover have "extract_ids (or_query serials) = serials"
    by (rule extract_or_query [OF assms(3)])
  ultimately show ?thesis
    by (simp add: or_query_def)
qed

text \<open>
  A run of it: two rows, one blank cell, cells with surrounding spaces, one identifier
  twice.
\<close>

theorem or_query_round_trip_witness:
  "generate_or_query [['' SN00001'', ''  ''], [''SN00002 '', ''SN00001'']]
     = Inr (''('' @ join '' or '' (map name_eq [''SN00001'', ''SN00002'', ''SN00001'']) @ '')'',
            [''SN00001'', ''SN00002'', ''SN00001''])
   \<and> extract_ids (''('' @ join '' or '' (map name_eq [''SN00001'', ''SN00002'', ''SN00001'']) @ '')'')
     = [''SN00001'', ''SN00002'', ''SN00001'']"
  using or_query_round_trip [of "[''SN00001'', ''SN00002'', ''SN00001'']"
          "[['' SN00001'', ''  ''], [''SN00002 '', ''SN00001'']]"]
  by (simp add: strip_examples dquote_def)

text \<open>
  Claim C7 as stated fails for an identifier that contains a double quote, which a quoted
  CSV cell can hold. The single identifier \<^verbatim>\<open>A" or name=="B\<close> gives the very expression
  of the two identifiers \<^verbatim>\<open>A\<close> and \<^verbatim>\<open>B\<close>, so the identifiers read back are not the ones
  supplied.
\<close>

theorem or_query_round_trip_counterexample:
  "generate_or_query [[''A'' @ [CHR 0x22] @ '' or name=='' @ [CHR 0x22] @ ''B'']]
     = Inr (or_query [''A'', ''B''], [''A'' @ [CHR 0x22] @ '' or name=='' @ [CHR 0x22] @ ''B''])
   \<and> extract_ids (or_query [''A'', ''B'']) = [''A'', ''B'']
   \<and> [''A'', ''B''] \<noteq> [''A'' @ [CHR 0x22] @ '' or name=='' @ [CHR 0x22] @ ''B'']"
  by (simp add: generate_or_query_def or_query_def name_eq_def dquote_def extract_ids_def
        strip_def is_space_def)

text \<open>
  Claim C8. \<open>generate_or_query\<close> raises its error, the
  \<^verbatim>\<open>RuntimeError("CSV empty or unreadable.")\<close> that the spec calls \<open>EmptyInputError\<close>,
  exactly when every cell of the input consists of whitespace only (in particular when
  there is no cell at all); with at least one cell holding a non-whitespace character it
  returns an expression and a non-empty identifier list.
\<close>

theorem generate_or_query_empty_input:
  "(generate_or_query rows = Inl (RuntimeError ''CSV empty or unreadable.'')
      \<longleftrightarrow> (\<forall>v \<in> set (concat rows). \<forall>c \<in> set v. is_space c))
   \<and> ((\<exists>v \<in> set (concat rows). \<exists>c \<in> set v. \<not> is_space c)
      \<longrightarrow> (\<exists>q serials. generate_or_query rows = Inr (q, serials) \<and> serials \<noteq> []))"
proof -
  have "generate_or_query rows = Inl (RuntimeError ''CSV empty or unreadable.'')
        \<longleftrightarrow> collect_rows rows [] = []"
    by (simp add: generate_or_query_def Let_def)
  moreover have "collect_rows rows [] \<noteq> [] \<Longrightarrow>
      \<exists>q serials. generate_or_query rows = Inr (q, serials) \<and> serials \<noteq> []"
    by (simp add: generate_or_query_def Let_def)
  ultimately show ?thesis
    using serials_empty_iff [of rows] by blast
qed

text \<open>No row; rows of blank cells only; a row with one real identifier.\<close>

theorem generate_or_query_empty_input_witness:
  "generate_or_query [] = Inl (RuntimeError ''CSV empty or unreadable.'')
   \<and> generate_or_query [['' '', ''''], [[CHR 0x09]]] = Inl (RuntimeError ''CSV empty or unreadable.'')
   \<and> (\<exists>q serials. generate_or_query [['' '', '' SN00001 '']] = Inr (q, serials) \<and> serials \<noteq> [])"
proof -
  have sp: "is_space CHR '' ''" "is_space (CHR 0x09)" "\<not> is_space CHR ''S''"
    by (simp_all add: is_space_def)
  have a: "generate_or_query [] = Inl (RuntimeError ''CSV empty or unreadable.'')"
    using generate_or_query_empty_input [of "[]"] by simp
  have b: "generate_or_query [['' '', ''''], [[CHR 0x09]]]
           = Inl (RuntimeError ''CSV empty or unreadable.'')"
    using generate_or_query_empty_input [of "[['' '', ''''], [[CHR 0x09]]]"] sp by simp
  have c: "\<exists>q serials. generate_or_query [['' '', '' SN00001 '']] = Inr (q, serials) \<and> serials \<noteq> []"
    using generate_or_query_empty_input [of "[['' '', '' SN00001 '']]"] sp by simp
  from a b c show ?thesis by blast
qed

section \<open>Properties of the single-request components\<close>

lemma last_trace_print [simp]: "last (trace (py_print m st)) = Printed m"
  by (simp add: py_print_def)

text \<open>
  Claim C6, as amended. Let \<open>r\<close> be the server's response to the bundle query and
  \<open>sets\<close> the list it carries. On a non-200 response \<open>get_distribution_set\<close> returns
  \<^verbatim>\<open>None\<close>, as a value and not as an exception, and reports the status. On a 200
  response it returns the identifier field of the first listed entry whose name and
  version both equal the requested ones, however many same-named entries of other
  versions the list holds: it returns an identifier exactly when there is such an entry
  and the first of them carries an identifier. It reports a distribution set as found
  exactly when some listed entry has the requested name and version; when the listed
  entries all carry an identifier, that is exactly when it returns an identifier.
\<close>

theorem get_distribution_set_first_match:
  assumes "r = w (trace st) (FindDistributionSet name version)"
      and "sets = listing (resp_json r)"
  shows "(status_code r \<noteq> 200 \<longrightarrow>
            fst (get_distribution_set w name version st) = PNone
            \<and> last (trace (snd (get_distribution_set w name version st)))
                = Printed (Resolver (DSQueryFailed (status_code r))))
       \<and> (status_code r = 200 \<longrightarrow>
            (fst (get_distribution_set w name version st) \<noteq> PNone
               \<longleftrightarrow> (\<exists>i < length sets.
                      e_name (sets ! i) = PStr name \<and> e_version (sets ! i) = PStr version
                      \<and> (\<forall>j < i. \<not> (e_name (sets ! j) = PStr name \<and> e_version (sets ! j) = PStr version))
                      \<and> e_id (sets ! i) \<noteq> PNone)))
       \<and> (status_code r = 200 \<longrightarrow>
            (\<forall>i < length sets.
               e_name (sets ! i) = PStr name \<and> e_version (sets ! i) = PStr version
               \<and> (\<forall>j < i. \<not> (e_name (sets ! j) = PStr name \<and> e_version (sets ! j) = PStr version))
               \<longrightarrow> fst (get_distribution_set w name version st) = e_id (sets ! i)))
       \<and> (status_code r = 200 \<longrightarrow>
            ((\<exists>ds_id. last (trace (snd (get_distribution_set w name version st)))
                        = Printed (Resolver (DSFound name version ds_id)))
               \<longleftrightarrow> (\<exists>ds \<in> set sets. e_name ds = PStr name \<and> e_version ds = PStr version)))
       \<and> (status_code r = 200 \<and> (\<forall>ds \<in> set sets. e_id ds \<noteq> PNone) \<longrightarrow>
            (fst (get_distribution_set w name version st) \<noteq> PNone
               \<longleftrightarrow> (\<exists>ds \<in> set sets. e_name ds = PStr name \<and> e_version ds = PStr version)))"
proof -
  let ?P = "\<lambda>ds. e_name ds = PStr name \<and> e_version ds = PStr version"
  have res: "fst (get_distribution_set w name version st)
             = (if status_code r \<noteq> 200 then PNone
                else case find ?P sets of Some ds \<Rightarrow> e_id ds | None \<Rightarrow> PNone)"
    using assms
    by (simp add: get_distribution_set_def http_def Let_def split: option.splits)
  have msg: "last (trace (snd (get_distribution_set w name version st)))
             = Printed (Resolver
                 (if status_code r \<noteq> 200 then DSQueryFailed (status_code r)
                  else case find ?P sets of Some ds \<Rightarrow> DSFound name version (e_id ds)
                       | None \<Rightarrow> DSNotFound name version))"
    using assms
    by (simp add: get_distribution_set_def http_def Let_def split: option.splits)
  show ?thesis
  proof (cases "find ?P sets")
    case None
    then have no: "\<forall>ds \<in> set sets. \<not> ?P ds"
      by (simp add: find_None_iff)
    then have "\<forall>i < length sets. \<not> ?P (sets ! i)"
      by simp
    with None no res msg show ?thesis by auto
  next
    case (Some ds)
    then obtain i where i: "i < length sets" "sets ! i = ds" "?P ds" "\<forall>j < i. \<not> ?P (sets ! j)"
      by (auto simp: find_Some_iff)
    have uniq: "\<And>k. k < length sets \<Longrightarrow> ?P (sets ! k) \<Longrightarrow> \<forall>j < k. \<not> ?P (sets ! j) \<Longrightarrow> k = i"
    proof -
      fix k assume k: "k < length sets" "?P (sets ! k)" "\<forall>j < k. \<not> ?P (sets ! j)"
      show "k = i"
      proof (rule ccontr)
        assume "k \<noteq> i"
        then consider "k < i" | "i < k" by linarith
        then show False
          using i k by cases auto
      qed
    qed
    have mem: "ds \<in> set sets"
      using i(1,2) by auto
    have r1: "status_code r = 200 \<Longrightarrow> fst (get_distribution_set w name version st) = e_id ds"
      using res Some by simp
    have m1: "status_code r = 200 \<Longrightarrow>
        last (trace (snd (get_distribution_set w name version st)))
          = Printed (Resolver (DSFound name version (e_id ds)))"
      using msg Some by simp
    have c1: "status_code r \<noteq> 200 \<longrightarrow>
            fst (get_distribution_set w name version st) = PNone
            \<and> last (trace (snd (get_distribution_set w name version st)))
                = Printed (Resolver (DSQueryFailed (status_code r)))"
      using res msg by simp
    have c2: "status_code r = 200 \<longrightarrow>
            (fst (get_distribution_set w name version st) \<noteq> PNone
               \<longleftrightarrow> (\<exists>i < length sets. ?P (sets ! i)
                      \<and> (\<forall>j < i. \<not> ?P (sets ! j)) \<and> e_id (sets ! i) \<noteq> PNone))"
      using r1 i uniq by metis
    have c3: "status_code r = 200 \<longrightarrow>
            (\<forall>k < length sets. ?P (sets ! k) \<and> (\<forall>j < k. \<not> ?P (sets ! j))
               \<longrightarrow> fst (get_distribution_set w name version st) = e_id (sets ! k))"
      using r1 i(2) uniq by metis
    have c4: "status_code r = 200 \<longrightarrow>
            ((\<exists>ds_id. last (trace (snd (get_distribution_set w name version st)))
                        = Printed (Resolver (DSFound name version ds_id)))
               \<longleftrightarrow> (\<exists>ds \<in> set sets. ?P ds))"
      using m1 mem i(3) by auto
    have c5: "status_code r = 200 \<and> (\<forall>ds \<in> set sets. e_id ds \<noteq> PNone) \<longrightarrow>
            (fst (get_distribution_set w name version st) \<noteq> PNone
               \<longleftrightarrow> (\<exists>ds \<in> set sets. ?P ds))"
      using r1 mem i(3) by auto
    from c1 c2 c3 c4 c5 show ?thesis by blast
  qed
qed

text \<open>
  A list with two same-named entries of different versions, asked for a listed and for
  an unlisted version; a 503 response; and a list whose first matching entry carries no
  identifier.
\<close>

lemma unidentified_listing:
  "listing (resp_json (reply 200 (empty_body\<lparr>b_content := Some unidentified_entries\<rparr>)))
     = unidentified_entries"
  by (simp add: listing_def reply_def empty_body_def unidentified_entries_def)

theorem get_distribution_set_first_match_witness:
  "fst (get_distribution_set (always (reply 200 (empty_body\<lparr>b_content := Some fw_entries\<rparr>)))
          ''fw'' ''1.1'' init_state) = PInt 42
   \<and> fst (get_distribution_set (always (reply 200 (empty_body\<lparr>b_content := Some fw_entries\<rparr>)))
          ''fw'' ''2.0'' init_state) = PNone
   \<and> fst (get_distribution_set (always (reply 503 (empty_body\<lparr>b_content := Some fw_entries\<rparr>)))
          ''fw'' ''1.1'' init_state) = PNone
   \<and> fst (get_distribution_set
            (always (reply 200 (empty_body\<lparr>b_content := Some unidentified_entries\<rparr>)))
          ''fw'' ''1.1'' init_state) = PNone"
proof -
  let ?ok = "reply 200 (empty_body\<lparr>b_content := Some fw_entries\<rparr>)"
  let ?down = "reply 503 (empty_body\<lparr>b_content := Some fw_entries\<rparr>)"
  let ?noid = "reply 200 (empty_body\<lparr>b_content := Some unidentified_entries\<rparr>)"
  have l: "listing (resp_json ?ok) = fw_entries"
    by (simp add: listing_def reply_def empty_body_def fw_entries_def)
  have a: "fst (get_distribution_set (always ?ok) ''fw'' ''1.1'' init_state) = PInt 42"
    using get_distribution_set_first_match [of ?ok "always ?ok" init_state "''fw''" "''1.1''" fw_entries,
            THEN conjunct2, THEN conjunct2, THEN conjunct1] l
    by (simp add: always_def reply_def) (drule spec [of _ 1], simp add: fw_entries_def less_Suc_eq)
  have b: "fst (get_distribution_set (always ?ok) ''fw'' ''2.0'' init_state) = PNone"
    using get_distribution_set_first_match [of ?ok "always ?ok" init_state "''fw''" "''2.0''" fw_entries,
            THEN conjunct2, THEN conjunct1] l
    by (auto simp: always_def reply_def fw_entries_def less_Suc_eq nth_Cons')
  have c: "fst (get_distribution_set (always ?down) ''fw'' ''1.1'' init_state) = PNone"
    using get_distribution_set_first_match [of ?down "always ?down" init_state "''fw''" "''1.1''"
            "listing (resp_json ?down)"]
    by (simp add: always_def reply_def)
  have d: "fst (get_distribution_set (always ?noid) ''fw'' ''1.1'' init_state) = PNone"
    using get_distribution_set_first_match [of ?noid "always ?noid" init_state "''fw''" "''1.1''"
            unidentified_entries, THEN conjunct2, THEN conjunct2, THEN conjunct1] unidentified_listing
    by (simp add: always_def reply_def) (drule spec [of _ 0], simp add: unidentified_entries_def)
  from a b c d show ?thesis by simp
qed

text \<open>
  Claim C6 as stated says that on a 200 response an identifier is returned whenever the
  list holds an entry of the requested name and version. In \<open>unidentified_entries\<close> the
  second entry has the requested name and version and the identifier 42, and the first
  one, of the same name and version, has no identifier: the loop returns at the first
  match, so the result is \<^verbatim>\<open>None\<close>.
\<close>

theorem get_distribution_set_no_id_counterexample:
  "status_code (reply 200 (empty_body\<lparr>b_content := Some unidentified_entries\<rparr>)) = 200
   \<and> listing (resp_json (reply 200 (empty_body\<lparr>b_content := Some unidentified_entries\<rparr>)))
       = unidentified_entries
   \<and> e_name (unidentified_entries ! 1) = PStr ''fw''
   \<and> e_version (unidentified_entries ! 1) = PStr ''1.1''
   \<and> e_id (unidentified_entries ! 1) = PInt 42
   \<and> fst (get_distribution_set
            (always (reply 200 (empty_body\<lparr>b_content := Some unidentified_entries\<rparr>)))
          ''fw'' ''1.1'' init_state) = PNone"
  by (simp add: get_distribution_set_def http_def py_print_def Let_def always_def reply_def
        empty_body_def listing_def unidentified_entries_def init_state_def)

text \<open>
  Claim C4, as amended. Let \<open>r\<close> be the server's response to the rollout-creation request.
  \<open>create_rollout\<close> sends that one request and nothing else. On status 200 or 201 it
  returns the identifier of the response body; on 409 it returns \<^verbatim>\<open>None\<close> and reports
  that the rollout exists and creation is skipped, so a repeated name, which the server
  answers with 409, creates nothing; on any other status, the other 2xx codes included,
  it returns \<^verbatim>\<open>None\<close> and reports the failure with the status and the response text.
\<close>

theorem create_rollout_outcome:
  assumes "payload = \<lparr>rp_name = name, rp_distributionSetId = ds_id,
                        rp_targetFilterQuery = query, rp_actionType = action_type,
                        rp_amountGroups = group_size, rp_start = ''auto''\<rparr>"
      and "r = w (trace st @ [Printed (Creator (RolloutPayload payload))]) (CreateRollout payload)"
  shows "create_rollout w name query ds_id group_size action_type st =
           (if status_code r = 200 \<or> status_code r = 201 then b_id (resp_json r) else PNone,
            st\<lparr>trace := trace st @
                   [Printed (Creator (RolloutPayload payload)),
                    Http (CreateRollout payload) r,
                    Printed (Creator
                      (if status_code r = 200 \<or> status_code r = 201
                       then RolloutCreated name (b_id (resp_json r))
                       else if status_code r = 409 then RolloutExistsSkipping name
                       else RolloutCreationFailed (status_code r) (resp_text r)))],
                clock := clock st + elapsed r\<rparr>)"
  using assms
  by (simp add: create_rollout_def http_def py_print_def Let_def)

text \<open>The three outcomes, on servers that answer 201 with identifier 7, 409, and 500.\<close>

theorem create_rollout_outcome_witness:
  "fst (create_rollout (always (reply 201 (empty_body\<lparr>b_id := PInt 7\<rparr>)))
          ''Rollout_Seq_1.1_00001_1'' ''q'' (PInt 42) 1 ''forced'' init_state) = PInt 7
   \<and> fst (create_rollout (always (reply 409 empty_body))
          ''Rollout_Seq_1.1_00001_1'' ''q'' (PInt 42) 1 ''forced'' init_state) = PNone
   \<and> last (trace (snd (create_rollout (always (reply 409 empty_body))
          ''Rollout_Seq_1.1_00001_1'' ''q'' (PInt 42) 1 ''forced'' init_state)))
       = Printed (Creator (RolloutExistsSkipping ''Rollout_Seq_1.1_00001_1''))
   \<and> last (trace (snd (create_rollout (always (reply 500 empty_body))
          ''Rollout_Seq_1.1_00001_1'' ''q'' (PInt 42) 1 ''forced'' init_state)))
       = Printed (Creator (RolloutCreationFailed 500 []))"
  using create_rollout_outcome [OF refl refl, of "always (reply 201 (empty_body\<lparr>b_id := PInt 7\<rparr>))"
          "''Rollout_Seq_1.1_00001_1''" "''q''" "PInt 42" 1 "''forced''" init_state]
        create_rollout_outcome [OF refl refl, of "always (reply 409 empty_body)"
          "''Rollout_Seq_1.1_00001_1''" "''q''" "PInt 42" 1 "''forced''" init_state]
        create_rollout_outcome [OF refl refl, of "always (reply 500 empty_body)"
          "''Rollout_Seq_1.1_00001_1''" "''q''" "PInt 42" 1 "''forced''" init_state]
  by (simp add: always_def reply_def empty_body_def)

text \<open>
  Claim C4 as stated fails on the 2xx statuses other than 200 and 201: a 202 response
  that carries identifier 7 is reported as a failure and no identifier is returned.
\<close>

theorem create_rollout_2xx_counterexample:
  "fst (create_rollout (always (reply 202 (empty_body\<lparr>b_id := PInt 7\<rparr>)))
          ''Rollout_Seq_1.1_00001_1'' ''q'' (PInt 42) 1 ''forced'' init_state) = PNone
   \<and> last (trace (snd (create_rollout (always (reply 202 (empty_body\<lparr>b_id := PInt 7\<rparr>)))
          ''Rollout_Seq_1.1_00001_1'' ''q'' (PInt 42) 1 ''forced'' init_state)))
       = Printed (Creator (RolloutCreationFailed 202 []))"
  by (simp add: create_rollout_def http_def py_print_def Let_def always_def reply_def)

text \<open>
  Claim C9. \<open>get_assigned_ds\<close> and \<open>get_installed_ds\<close> return \<open>True\<close> exactly on a 200
  response. A 204 response and every other status both return \<open>False\<close>; they differ
  only in the line printed last: the absence of a bundle on 204, an error with the status
  otherwise.
\<close>

theorem device_status_true_only_on_200:
  "fst (get_assigned_ds w t st) = (status_code (w (trace st) (GetAssignedDS t)) = 200)
   \<and> fst (get_installed_ds w t st) = (status_code (w (trace st) (GetInstalledDS t)) = 200)
   \<and> last (trace (snd (get_assigned_ds w t st)))
       = (let r = w (trace st) (GetAssignedDS t) in
          if status_code r = 200
          then Printed (Inspector (AssignedDS (b_name (resp_json r)) (b_version (resp_json r))))
          else if status_code r = 204 then Printed (Inspector NoAssignedDS)
          else Printed (Inspector (AssignedDSError (status_code r))))
   \<and> last (trace (snd (get_installed_ds w t st)))
       = (let r = w (trace st) (GetInstalledDS t) in
          if status_code r = 200
          then Printed (Inspector (InstalledDS (b_name (resp_json r)) (b_version (resp_json r))))
          else if status_code r = 204 then Printed (Inspector NoInstalledDS)
          else Printed (Inspector (InstalledDSError (status_code r))))"
  by (simp add: get_assigned_ds_def get_installed_ds_def http_def Let_def)

text \<open>
  On \<open>device_world\<close>: no bundle assigned to the first device (204) and a failed query
  for the second (500) both return \<open>False\<close>, with different lines printed.
\<close>

theorem device_status_true_only_on_200_witness:
  "fst (get_assigned_ds device_world ''SN00001'' init_state) = False
   \<and> fst (get_assigned_ds device_world ''SN00002'' init_state) = False
   \<and> fst (get_installed_ds device_world ''SN00001'' init_state) = True
   \<and> fst (get_installed_ds device_world ''SN00002'' init_state) = False
   \<and> last (trace (snd (get_assigned_ds device_world ''SN00001'' init_state)))
       = Printed (Inspector NoAssignedDS)
   \<and> last (trace (snd (get_assigned_ds device_world ''SN00002'' init_state)))
       = Printed (Inspector (AssignedDSError 500))"
  using device_status_true_only_on_200 [of device_world "''SN00001''" init_state]
        device_status_true_only_on_200 [of device_world "''SN00002''" init_state]
  by (simp add: reply_def Let_def)

section \<open>Properties of the Rollout Activator\<close>

lemma requests_simps [simp]:
  "requests [] = []" "requests (e # evs) = request_of e @ requests evs"
  "requests (xs @ ys) = requests xs @ requests ys"
  by (simp_all add: requests_def)

lemma polls_simps [simp]:
  "polls rid [] = []" "polls rid (e # evs) = poll_of rid e @ polls rid evs"
  "polls rid (xs @ ys) = polls rid xs @ polls rid ys"
  by (simp_all add: polls_def)

lemma sleeps_simps [simp]:
  "sleeps [] = []" "sleeps (e # evs) = sleep_of e @ sleeps evs"
  "sleeps (xs @ ys) = sleeps xs @ sleeps ys"
  by (simp_all add: sleeps_def)

lemma trace_http [simp]:
  "trace (snd (http w q st)) = trace st @ [Http q (w (trace st) q)]"
  "fst (http w q st) = w (trace st) q"
  by (simp_all add: http_def Let_def)

lemma trace_py_print [simp]: "trace (py_print m st) = trace st @ [Printed m]"
  by (simp add: py_print_def)

lemma trace_sleep [simp]: "trace (sleep d st) = trace st @ [Slept d]"
  by (simp add: sleep_def)

lemma wait_ready_events:
  "\<exists>evs. trace (snd (wait_ready n w rid st)) = trace st @ evs
     \<and> requests evs = replicate (length (polls rid evs)) (GetRollout rid)
     \<and> length (polls rid evs) \<le> n
     \<and> sleeps evs = replicate (length (filter (\<lambda>r. \<not> observes_ready r) (polls rid evs))) 5
     \<and> fst (wait_ready n w rid st) = list_ex observes_ready (polls rid evs)
     \<and> (\<not> fst (wait_ready n w rid st) \<longrightarrow> length (polls rid evs) = n)"
proof (induction n arbitrary: st)
  case 0
  show ?case by simp
next
  case (Suc n)
  let ?r = "w (trace st) (GetRollout rid)"
  let ?st1 = "snd (http w (GetRollout rid) st)"
  let ?st2 = "py_print (Activator (RolloutStatus (b_status (resp_json ?r)))) ?st1"
  show ?case
  proof (cases "observes_ready ?r")
    case True
    then have "wait_ready (Suc n) w rid st = (True, ?st2)"
      by (simp add: observes_ready_def split_def Let_def)
    then show ?thesis
      using True
      by (intro exI [of _ "[Http (GetRollout rid) ?r,
            Printed (Activator (RolloutStatus (b_status (resp_json ?r))))]"]) simp
  next
    case False
    define st' where "st' = (if status_code ?r = 200 then sleep 5 ?st2 else sleep 5 ?st1)"
    define pre where "pre = (if status_code ?r = 200
        then [Http (GetRollout rid) ?r, Printed (Activator (RolloutStatus (b_status (resp_json ?r)))), Slept 5]
        else [Http (GetRollout rid) ?r, Slept 5])"
    have step: "wait_ready (Suc n) w rid st = wait_ready n w rid st'"
      using False by (simp add: observes_ready_def split_def Let_def st'_def)
    have tr: "trace st' = trace st @ pre"
      by (simp add: st'_def pre_def)
    have pre: "requests pre = [GetRollout rid]" "polls rid pre = [?r]" "sleeps pre = [5]"
      by (simp_all add: pre_def)
    from Suc.IH [of st'] obtain evs where
      evs: "trace (snd (wait_ready n w rid st')) = trace st' @ evs"
        "requests evs = replicate (length (polls rid evs)) (GetRollout rid)"
        "length (polls rid evs) \<le> n"
        "sleeps evs = replicate (length (filter (\<lambda>r. \<not> observes_ready r) (polls rid evs))) 5"
        "fst (wait_ready n w rid st') = list_ex observes_ready (polls rid evs)"
        "\<not> fst (wait_ready n w rid st') \<longrightarrow> length (polls rid evs) = n"
      by blast
    show ?thesis
      using evs False
      by (intro exI [of _ "pre @ evs"]) (simp add: step tr pre del: wait_ready.simps)
  qed
qed





section \<open>Properties of the Rollout Monitor\<close>

lemma clock_http [simp]: "clock (snd (http w q st)) = clock st + elapsed (w (trace st) q)"
  by (simp add: http_def Let_def)

lemma clock_py_print [simp]: "clock (py_print m st) = clock st"
  by (simp add: py_print_def)

lemma clock_sleep [simp]: "clock (sleep d st) = clock st + d"
  by (simp add: sleep_def)

lemma monitor_loop_more_fuel:
  "monitor_loop fuel w rid interval timeout start st = Some st' \<Longrightarrow>
   monitor_loop (fuel + k) w rid interval timeout start st = Some st'"
proof (induction fuel arbitrary: st)
  case 0
  then show ?case by simp
next
  case (Suc fuel)
  then show ?case
    by (simp add: split_def Let_def split: if_splits)
qed

lemma monitor_loop_terminates:
  assumes ok: "\<forall>tr. status_code (w tr (GetRollout rid)) = 200"
      and progress: "\<forall>tr. 0 < elapsed (w tr (GetRollout rid)) + interval"
  shows "start \<le> clock st \<Longrightarrow> clock st \<le> start + timeout + interval \<Longrightarrow>
     \<exists>fuel st' evs. monitor_loop fuel w rid interval timeout start st = Some st'
       \<and> trace st' = trace st @ evs
       \<and> requests evs = replicate (length (polls rid evs)) (GetRollout rid)
       \<and> polls rid evs \<noteq> []
       \<and> (\<forall>r \<in> set (butlast (polls rid evs)). \<not> terminal_status (b_status (resp_json r)))
       \<and> sleeps evs = replicate (length (polls rid evs) - 1) interval
       \<and> (if terminal_status (b_status (resp_json (last (polls rid evs))))
          then last evs = Printed (Monitor (RolloutEnded (b_status (resp_json (last (polls rid evs))))))
          else last evs = Printed (Monitor TimeoutReached)
               \<and> timeout < clock st' - start
               \<and> clock st' - start \<le> timeout + interval + elapsed (last (polls rid evs)))"
proof (induction "start + timeout + interval + 1 - clock st" arbitrary: st rule: less_induct)
  case less
  let ?q = "GetRollout rid"
  let ?r = "w (trace st) ?q"
  let ?st1 = "snd (http w ?q st)"
  let ?line = "Printed (Monitor (ProgressLine (b_status (resp_json ?r))
                     (get_or (PInt 0) (b_totalTargetsCompleted (resp_json ?r)))
                     (get_or (PInt 0) (b_totalTargetsFailed (resp_json ?r)))
                     (get_or (PInt 0) (b_totalTargetsPending (resp_json ?r)))
                     (get_or (PInt 0) (b_totalTargets (resp_json ?r)))))"
  let ?st2 = "py_print (Monitor (ProgressLine (b_status (resp_json ?r))
                     (get_or (PInt 0) (b_totalTargetsCompleted (resp_json ?r)))
                     (get_or (PInt 0) (b_totalTargetsFailed (resp_json ?r)))
                     (get_or (PInt 0) (b_totalTargetsPending (resp_json ?r)))
                     (get_or (PInt 0) (b_totalTargets (resp_json ?r))))) ?st1"
  have code: "status_code ?r = 200"
    using ok by simp
  have c2: "clock ?st2 = clock st + elapsed ?r"
    by simp
  consider (ended) "terminal_status (b_status (resp_json ?r))"
    | (timed_out) "\<not> terminal_status (b_status (resp_json ?r))" "timeout < clock ?st2 - start"
    | (again) "\<not> terminal_status (b_status (resp_json ?r))" "\<not> timeout < clock ?st2 - start"
    by blast
  then show ?case
  proof cases
    case ended
    let ?st' = "py_print (Monitor (RolloutEnded (b_status (resp_json ?r)))) ?st2"
    have "monitor_loop (Suc 0) w rid interval timeout start st = Some ?st'"
      using code ended by (simp add: split_def Let_def)
    then show ?thesis
      using ended
      by (intro exI [of _ "Suc 0"] exI [of _ ?st']
            exI [of _ "[Http ?q ?r, ?line, Printed (Monitor (RolloutEnded (b_status (resp_json ?r))))]"])
         simp
  next
    case timed_out
    let ?st' = "py_print (Monitor TimeoutReached) ?st2"
    have "monitor_loop (Suc 0) w rid interval timeout start st = Some ?st'"
      using code timed_out by (simp add: split_def Let_def)
    moreover have "clock ?st' - start \<le> timeout + interval + elapsed ?r"
      using less.prems by simp
    moreover have "timeout < clock ?st' - start"
      using timed_out by simp
    ultimately show ?thesis
      using timed_out(1)
      by (intro exI [of _ "Suc 0"] exI [of _ ?st']
            exI [of _ "[Http ?q ?r, ?line, Printed (Monitor TimeoutReached)]"])
         simp
  next
    case again
    let ?st3 = "sleep interval ?st2"
    have c3: "clock ?st3 = clock st + elapsed ?r + interval"
      by simp
    have adv: "clock st < clock ?st3"
      using progress c3 by (metis add.assoc less_add_same_cancel1)
    have lo: "start \<le> clock ?st3"
      using less.prems(1) c3 by linarith
    have hi: "clock ?st3 \<le> start + timeout + interval"
      using again(2) c3 c2 by linarith
    have dec: "start + timeout + interval + 1 - clock ?st3 < start + timeout + interval + 1 - clock st"
      using adv hi by linarith
    from less.hyps [OF dec lo hi] obtain fuel st' evs where
      run: "monitor_loop fuel w rid interval timeout start ?st3 = Some st'"
        and tr: "trace st' = trace ?st3 @ evs"
        and rq: "requests evs = replicate (length (polls rid evs)) (GetRollout rid)"
        and ne: "polls rid evs \<noteq> []"
        and early: "\<forall>r \<in> set (butlast (polls rid evs)). \<not> terminal_status (b_status (resp_json r))"
        and sl: "sleeps evs = replicate (length (polls rid evs) - 1) interval"
        and fin: "if terminal_status (b_status (resp_json (last (polls rid evs))))
          then last evs = Printed (Monitor (RolloutEnded (b_status (resp_json (last (polls rid evs))))))
          else last evs = Printed (Monitor TimeoutReached)
               \<and> timeout < clock st' - start
               \<and> clock st' - start \<le> timeout + interval + elapsed (last (polls rid evs))"
      by blast
    have evs_ne: "evs \<noteq> []"
      using ne by auto
    have step: "monitor_loop (Suc fuel) w rid interval timeout start st = Some st'"
      using code again run by (simp add: split_def Let_def)
    have sl': "interval # replicate (length (polls rid evs) - 1) interval
               = replicate (length (polls rid evs)) interval"
      using ne by (cases "polls rid evs") simp_all
    show ?thesis
      using step tr rq ne early sl fin evs_ne again(1) sl'
      by (intro exI [of _ "Suc fuel"] exI [of _ st']
            exI [of _ "[Http ?q ?r, ?line, Slept interval] @ evs"])
         (simp del: monitor_loop.simps)
  qed
qed

lemma finishing_run:
  "map_option clock (monitor_rollout_until_done 3 finishing_world (PInt 7) 10 1800 init_state) = Some 20"
  "map_option (last \<circ> trace) (monitor_rollout_until_done 3 finishing_world (PInt 7) 10 1800 init_state)
     = Some (Printed (Monitor (RolloutEnded (PStr ''finished''))))"
  by (simp_all add: monitor_rollout_until_done_def eval_nat_numeral http_def py_print_def sleep_def
       Let_def init_state_def running_def finished_def reply_def empty_body_def terminal_status_def)

text \<open>
  Claim C1, as amended. Suppose every poll of the rollout is answered 200 and every
  polling cycle, the poll and the sleep after it, takes positive time. Then with enough
  fuel the monitor returns, in one of two ways. The statuses of all polls but the last are
  not terminal. When the status of the last poll is \<^verbatim>\<open>finished\<close>, \<^verbatim>\<open>error\<close> or \<^verbatim>\<open>paused\<close>,
  the monitor ends by reporting that status: it ends at the first poll with a terminal
  status. Otherwise it ends by reporting the timeout; the time elapsed since the monitor
  started then exceeds the timeout, by at most one polling interval plus the duration of
  the last poll, because the timeout is tested only after a poll has completed.
\<close>

theorem monitor_terminates:
  assumes ok: "\<forall>tr. status_code (w tr (GetRollout rid)) = 200"
      and progress: "\<forall>tr. 0 < elapsed (w tr (GetRollout rid)) + interval"
  shows "\<exists>n st' evs.
       (\<forall>fuel \<ge> n. monitor_rollout_until_done fuel w rid interval timeout st = Some st')
       \<and> trace st' = trace st @ Printed (Monitor MonitoringProgress) # evs
       \<and> requests evs = replicate (length (polls rid evs)) (GetRollout rid)
       \<and> polls rid evs \<noteq> []
       \<and> (\<forall>r \<in> set (butlast (polls rid evs)). \<not> terminal_status (b_status (resp_json r)))
       \<and> sleeps evs = replicate (length (polls rid evs) - 1) interval
       \<and> (if terminal_status (b_status (resp_json (last (polls rid evs))))
          then last evs = Printed (Monitor (RolloutEnded (b_status (resp_json (last (polls rid evs))))))
          else last evs = Printed (Monitor TimeoutReached)
               \<and> timeout < clock st' - clock st
               \<and> clock st' - clock st \<le> timeout + interval + elapsed (last (polls rid evs)))"
proof -
  let ?st0 = "py_print (Monitor MonitoringProgress) st"
  have lo: "clock st \<le> clock ?st0" and hi: "clock ?st0 \<le> clock st + timeout + interval"
    by simp_all
  from monitor_loop_terminates [where w = w and rid = rid and interval = interval
         and start = "clock st" and st = ?st0 and timeout = timeout, OF ok progress lo hi]
  obtain n st' evs where
    run: "monitor_loop n w rid interval timeout (clock st) ?st0 = Some st'"
      and rest: "trace st' = trace ?st0 @ evs"
        "requests evs = replicate (length (polls rid evs)) (GetRollout rid)"
        "polls rid evs \<noteq> []"
        "\<forall>r \<in> set (butlast (polls rid evs)). \<not> terminal_status (b_status (resp_json r))"
        "sleeps evs = replicate (length (polls rid evs) - 1) interval"
        "if terminal_status (b_status (resp_json (last (polls rid evs))))
          then last evs = Printed (Monitor (RolloutEnded (b_status (resp_json (last (polls rid evs))))))
          else last evs = Printed (Monitor TimeoutReached)
               \<and> timeout < clock st' - clock st
               \<and> clock st' - clock st \<le> timeout + interval + elapsed (last (polls rid evs))"
    by blast
  have "\<forall>fuel \<ge> n. monitor_rollout_until_done fuel w rid interval timeout st = Some st'"
  proof (intro allI impI)
    fix fuel assume "n \<le> fuel"
    then obtain k where "fuel = n + k"
      using le_Suc_ex by blast
    then show "monitor_rollout_until_done fuel w rid interval timeout st = Some st'"
      using monitor_loop_more_fuel [OF run, of k]
      by (simp add: monitor_rollout_until_done_def Let_def)
  qed
  then show ?thesis
    using rest by (intro exI [of _ n] exI [of _ st'] exI [of _ evs]) simp
qed

text \<open>
  The statuses \<^verbatim>\<open>running\<close>, \<^verbatim>\<open>running\<close>, \<^verbatim>\<open>finished\<close> polled at interval 10: the hypotheses
  hold, and the run (\<open>finishing_run\<close>) ends after two sleeps, reporting \<^verbatim>\<open>finished\<close>.
\<close>

theorem monitor_terminates_witness:
  "\<exists>n st' evs.
       (\<forall>fuel \<ge> n. monitor_rollout_until_done fuel finishing_world (PInt 7) 10 1800 init_state = Some st')
       \<and> trace st' = trace init_state @ Printed (Monitor MonitoringProgress) # evs
       \<and> requests evs = replicate (length (polls (PInt 7) evs)) (GetRollout (PInt 7))
       \<and> polls (PInt 7) evs \<noteq> []
       \<and> (\<forall>r \<in> set (butlast (polls (PInt 7) evs)). \<not> terminal_status (b_status (resp_json r)))
       \<and> sleeps evs = replicate (length (polls (PInt 7) evs) - 1) 10
       \<and> (if terminal_status (b_status (resp_json (last (polls (PInt 7) evs))))
          then last evs = Printed (Monitor (RolloutEnded (b_status (resp_json (last (polls (PInt 7) evs))))))
          else last evs = Printed (Monitor TimeoutReached)
               \<and> 1800 < clock st' - clock init_state
               \<and> clock st' - clock init_state \<le> 1800 + 10 + elapsed (last (polls (PInt 7) evs)))"
proof (rule monitor_terminates)
  show "\<forall>tr. status_code (finishing_world tr (GetRollout (PInt 7))) = 200"
    by (simp add: running_def finished_def reply_def)
  show "\<forall>tr. 0 < elapsed (finishing_world tr (GetRollout (PInt 7))) + 10"
    by simp
qed

text \<open>
  Claim C1 as stated bounds the overshoot by one polling interval. With interval 1 and
  timeout 10, a first poll that is answered 200 with status \<^verbatim>\<open>running\<close> after 100 time
  units ends the monitor by timeout at elapsed time 100, which is more than 10 + 1.
\<close>

theorem monitor_overshoot_counterexample:
  "monitor_rollout_until_done 1 (always slow_running) (PInt 7) 1 10 init_state
     = Some \<lparr>trace = [Printed (Monitor MonitoringProgress),
                      Http (GetRollout (PInt 7)) slow_running,
                      Printed (Monitor (ProgressLine (PStr ''running'') (PInt 0) (PInt 0) (PInt 0) (PInt 0))),
                      Printed (Monitor TimeoutReached)],
             clock = 100\<rparr>
   \<and> status_code slow_running = 200
   \<and> \<not> (100::nat) - 0 \<le> 10 + 1"
  by (simp add: monitor_rollout_until_done_def http_def py_print_def Let_def init_state_def
        always_def slow_running_def running_def reply_def empty_body_def terminal_status_def
        get_or_def)

section \<open>Properties of the Selection Registrar\<close>

lemma filter_store_append [simp]:
  "filter_store (tr @ es) = foldl filter_store_step (filter_store tr) es"
  by (simp add: filter_store_def)

lemma filter_store_step_ids:
  "\<forall>f \<in> set fs. sf_id f \<noteq> 0 \<Longrightarrow> \<forall>f \<in> set (filter_store_step fs e). sf_id f \<noteq> 0"
  by (induction fs e rule: filter_store_step.induct) auto

lemma filter_store_ids: "\<forall>f \<in> set (filter_store tr). sf_id f \<noteq> 0"
proof (induction tr rule: rev_induct)
  case Nil
  show ?case by (simp add: filter_store_def)
next
  case (snoc e tr)
  then show ?case
    using filter_store_step_ids [of "filter_store tr" e] by simp
qed

lemma find_filter_entry:
  "find (\<lambda>e. e_name e = PStr name) (map filter_entry fs)
     = map_option filter_entry (find (\<lambda>f. sf_name f = name) fs)"
  by (induction fs) (simp_all add: filter_entry_def)

lemma find_after_update:
  "find (\<lambda>f. sf_name f = name) fs = Some f0 \<Longrightarrow>
   find (\<lambda>f. sf_name f = name)
        (map (\<lambda>f. if PInt (sf_id f) = PInt (sf_id f0) then f\<lparr>sf_query := q\<rparr> else f) fs)
     = Some (f0\<lparr>sf_query := q\<rparr>)"
  by (induction fs) (auto split: if_splits)

lemma find_after_create:
  "find (\<lambda>f. sf_name f = name) fs = None \<Longrightarrow>
   find (\<lambda>f. sf_name f = name) (fs @ [\<lparr>sf_id = i, sf_name = name, sf_query = q\<rparr>])
     = Some \<lparr>sf_id = i, sf_name = name, sf_query = q\<rparr>"
  by (induction fs) (auto split: if_splits)

lemma listing_content [simp]:
  "listing (resp_json (reply c (empty_body\<lparr>b_content := Some xs\<rparr>))) = xs"
  by (simp add: listing_def reply_def empty_body_def)

lemma status_reply [simp]: "status_code (reply c b) = c"
  by (simp add: reply_def)

lemma upsert_once:
  "fst (create_target_filter filter_server name q st)
   \<and> stored_query (trace (snd (create_target_filter filter_server name q st))) name = Some q"
proof (cases "find (\<lambda>f. sf_name f = name) (filter_store (trace st))")
  case None
  then have "\<not> list_ex (\<lambda>f. sf_name f = name) (filter_store (trace st))"
    by (simp add: find_None_iff list_ex_iff)
  then show ?thesis
    using find_after_create [OF None]
    by (simp add: create_target_filter_def http_def py_print_def Let_def stored_query_def)
next
  case (Some f0)
  then have ex: "list_ex (\<lambda>f. sf_name f = name) (filter_store (trace st))"
    and mem: "f0 \<in> set (filter_store (trace st))"
    by (auto simp: find_Some_iff list_ex_iff)
  have id0: "sf_id f0 \<noteq> 0"
    using filter_store_ids mem by blast
  have byid: "list_ex (\<lambda>f. PInt (sf_id f) = PInt (sf_id f0)) (filter_store (trace st))"
    using mem by (auto simp: list_ex_iff)
  show ?thesis
    using ex id0 byid Some find_after_update [OF Some, of q]
    by (simp add: create_target_filter_def http_def py_print_def Let_def stored_query_def
          find_filter_entry filter_entry_def cong: if_cong)
qed

lemma upsert_requests:
  "requests (trace (snd (create_target_filter filter_server FILTER_NAME ''name==B''
      (snd (create_target_filter filter_server FILTER_NAME ''name==A'' init_state)))))
   = [CreateTargetFilter \<lparr>fp_name = FILTER_NAME, fp_query = ''name==A''\<rparr>,
      CreateTargetFilter \<lparr>fp_name = FILTER_NAME, fp_query = ''name==B''\<rparr>,
      ListTargetFilters,
      UpdateTargetFilter (PInt 1) \<lparr>fp_name = FILTER_NAME, fp_query = ''name==B''\<rparr>]"
  by (simp add: create_target_filter_def http_def py_print_def Let_def init_state_def
        filter_store_def filter_entry_def)

text \<open>
  Claim C5. Let \<open>r\<close> be the response to the creation request, \<open>resp\<close> the response to
  the list request that follows a 409, \<open>fid\<close> the identifier of the first listed entry
  whose name equals the requested name (\<^verbatim>\<open>None\<close> when there is none), and \<open>u\<close> the response
  to the update of entry \<open>fid\<close> with the new expression. \<open>create_target_filter\<close> succeeds
  exactly when the filter is created (the script reports 200 and 201 alike as created), or
  when \<open>r\<close> is 409, \<open>fid\<close> is found and \<open>u\<close> is 200 or 204. It sends the creation request;
  after a 409 the list request; and, when \<open>fid\<close> is found, the update of \<open>fid\<close> carrying
  the requested name and the new expression. After a 409 with no identifier found it
  reports that and fails; any other initial status fails. Consequently, on the reference
  server, two calls in a row with the same name succeed both and leave the second
  expression stored under that name, whatever was stored before.
\<close>

theorem create_target_filter_upsert:
  assumes "payload = \<lparr>fp_name = name, fp_query = query\<rparr>"
      and "r = w (trace st) (CreateTargetFilter payload)"
      and "tr2 = trace st @ [Http (CreateTargetFilter payload) r,
                             Printed (Registrar (FilterExistsUpdating name))]"
      and "resp = w tr2 ListTargetFilters"
      and "fid = (case find (\<lambda>f. e_name f = PStr name) (listing (resp_json resp)) of
                    Some f \<Rightarrow> e_id f
                  | None \<Rightarrow> PNone)"
      and "u = w (tr2 @ [Http ListTargetFilters resp]) (UpdateTargetFilter fid payload)"
  shows "fst (create_target_filter w name query st)
           = (status_code r = 200 \<or> status_code r = 201
              \<or> (status_code r = 409 \<and> truthy fid \<and> (status_code u = 200 \<or> status_code u = 204)))
       \<and> requests (trace (snd (create_target_filter w name query st)))
           = requests (trace st) @
             (if status_code r = 200 \<or> status_code r = 201 then [CreateTargetFilter payload]
              else if status_code r = 409 then
                (if truthy fid
                 then [CreateTargetFilter payload, ListTargetFilters, UpdateTargetFilter fid payload]
                 else [CreateTargetFilter payload, ListTargetFilters])
              else [CreateTargetFilter payload])
       \<and> (status_code r = 409 \<and> \<not> truthy fid \<longrightarrow>
            last (trace (snd (create_target_filter w name query st)))
              = Printed (Registrar FilterIdNotFound))
       \<and> (let (ok_a, st_b) = create_target_filter filter_server name query_a st_a;
               (ok_b, st_c) = create_target_filter filter_server name query_b st_b
           in ok_a \<and> ok_b \<and> stored_query (trace st_c) name = Some query_b)"
proof -
  have a: "fst (create_target_filter w name query st)
           = (status_code r = 200 \<or> status_code r = 201
              \<or> (status_code r = 409 \<and> truthy fid \<and> (status_code u = 200 \<or> status_code u = 204)))"
    using assms
    by (simp add: create_target_filter_def http_def py_print_def Let_def)
  have b: "requests (trace (snd (create_target_filter w name query st)))
           = requests (trace st) @
             (if status_code r = 200 \<or> status_code r = 201 then [CreateTargetFilter payload]
              else if status_code r = 409 then
                (if truthy fid
                 then [CreateTargetFilter payload, ListTargetFilters, UpdateTargetFilter fid payload]
                 else [CreateTargetFilter payload, ListTargetFilters])
              else [CreateTargetFilter payload])"
    using assms
    by (simp add: create_target_filter_def http_def py_print_def Let_def)
  have c: "status_code r = 409 \<and> \<not> truthy fid \<longrightarrow>
            last (trace (snd (create_target_filter w name query st)))
              = Printed (Registrar FilterIdNotFound)"
    using assms
    by (simp add: create_target_filter_def http_def py_print_def Let_def)
  have d: "let (ok_a, st_b) = create_target_filter filter_server name query_a st_a;
               (ok_b, st_c) = create_target_filter filter_server name query_b st_b
           in ok_a \<and> ok_b \<and> stored_query (trace st_c) name = Some query_b"
    using upsert_once [of name query_a st_a]
          upsert_once [of name query_b "snd (create_target_filter filter_server name query_a st_a)"]
    by (simp add: split_def)
  from a b c d show ?thesis by blast
qed

text \<open>
  Two calls on the empty reference server: the first creates the filter, the second is
  answered 409, lists the filters and updates filter 1.
\<close>

theorem create_target_filter_upsert_witness:
  "(let (ok_a, st_b) = create_target_filter filter_server FILTER_NAME ''name==A'' init_state;
        (ok_b, st_c) = create_target_filter filter_server FILTER_NAME ''name==B'' st_b
    in ok_a \<and> ok_b \<and> stored_query (trace st_c) FILTER_NAME = Some ''name==B'')
   \<and> requests (trace (snd (create_target_filter filter_server FILTER_NAME ''name==B''
        (snd (create_target_filter filter_server FILTER_NAME ''name==A'' init_state)))))
     = [CreateTargetFilter \<lparr>fp_name = FILTER_NAME, fp_query = ''name==A''\<rparr>,
        CreateTargetFilter \<lparr>fp_name = FILTER_NAME, fp_query = ''name==B''\<rparr>,
        ListTargetFilters,
        UpdateTargetFilter (PInt 1) \<lparr>fp_name = FILTER_NAME, fp_query = ''name==B''\<rparr>]"
  using create_target_filter_upsert [where name = FILTER_NAME and query_a = "''name==A''"
          and query_b = "''name==B''" and st_a = init_state and w = filter_server
          and query = "''name==A''" and st = init_state, OF refl refl refl refl refl refl]
        upsert_requests
  by blast

section \<open>Properties of the Sequence Driver\<close>

lemma created_simps [simp]:
  "created [] = []"
  "created (Http q r # evs) = create_of q @ created evs"
  "created (Printed m # evs) = created evs"
  "created (Slept d # evs) = created evs"
  "created (xs @ ys) = created xs @ created ys"
  by (simp_all add: created_def)

lemma printed_simps [simp]:
  "printed [] = []" "printed (e # evs) = print_of e @ printed evs"
  "printed (xs @ ys) = printed xs @ printed ys"
  by (simp_all add: printed_def)

lemma resolutions_simps [simp]:
  "resolutions [] = []" "resolutions (e # evs) = resolution_of e @ resolutions evs"
  "resolutions (xs @ ys) = resolutions xs @ resolutions ys"
  by (simp_all add: resolutions_def)

text \<open>
  The monitor that reports how far it got returns exactly when the monitor of the
  previous sections does, and in the same state.
\<close>

lemma monitor_run_agrees:
  "monitor_loop fuel w rid interval timeout start st
     = (case monitor_run fuel w rid interval timeout start st of
          Returned st' \<Rightarrow> Some st'
        | OutOfFuel st' \<Rightarrow> None)"
  by (induction fuel arbitrary: st) (simp_all add: split_def Let_def)

lemma monitor_rollout_run_agrees:
  "monitor_rollout_until_done fuel w rid interval timeout st
     = (case monitor_rollout_run fuel w rid interval timeout st of
          Returned st' \<Rightarrow> Some st'
        | OutOfFuel st' \<Rightarrow> None)"
  by (simp add: monitor_rollout_until_done_def monitor_rollout_run_def monitor_run_agrees Let_def)

text \<open>
  What each component adds to the rollout-creation requests and to the bundle queries of
  the trace.
\<close>

lemma observed_wait_ready [simp]:
  "created (trace (snd (wait_ready n w rid st))) = created (trace st)"
  "resolutions (trace (snd (wait_ready n w rid st))) = resolutions (trace st)"
  by (induction n arbitrary: st) (simp_all add: split_def Let_def)

lemma observed_start_rollout [simp]:
  "created (trace (start_rollout w rid st)) = created (trace st)"
  "resolutions (trace (start_rollout w rid st)) = resolutions (trace st)"
  by (simp_all add: start_rollout_def split_def Let_def)

lemma observed_monitor_run [simp]:
  "created (trace (run_state (monitor_run fuel w rid interval timeout start st))) = created (trace st)"
  "resolutions (trace (run_state (monitor_run fuel w rid interval timeout start st)))
     = resolutions (trace st)"
  by (induction fuel arbitrary: st) (simp_all add: split_def Let_def)

lemma observed_monitor_rollout_run [simp]:
  "created (trace (run_state (monitor_rollout_run fuel w rid interval timeout st))) = created (trace st)"
  "resolutions (trace (run_state (monitor_rollout_run fuel w rid interval timeout st)))
     = resolutions (trace st)"
  by (simp_all add: monitor_rollout_run_def Let_def)

lemma resolved_get_distribution_set:
  "fst (get_distribution_set w name version st)
     = resolved_id name version (w (trace st) (FindDistributionSet name version))"
  by (simp add: get_distribution_set_def resolved_id_def http_def Let_def split: option.splits)

lemma observed_get_distribution_set [simp]:
  "created (trace (snd (get_distribution_set w name version st))) = created (trace st)"
  "resolutions (trace (snd (get_distribution_set w name version st)))
     = resolutions (trace st) @ [((name, version), fst (get_distribution_set w name version st))]"
  by (simp_all add: get_distribution_set_def resolved_id_def http_def py_print_def Let_def
        split: option.splits)

lemma observed_create_rollout [simp]:
  "created (trace (snd (create_rollout w name query ds_id group_size action_type st)))
     = created (trace st) @
       [\<lparr>rp_name = name, rp_distributionSetId = ds_id, rp_targetFilterQuery = query,
         rp_actionType = action_type, rp_amountGroups = group_size, rp_start = ''auto''\<rparr>]"
  "resolutions (trace (snd (create_rollout w name query ds_id group_size action_type st)))
     = resolutions (trace st)"
  by (simp_all add: create_rollout_def split_def Let_def)

lemma observed_create_target_filter [simp]:
  "created (trace (snd (create_target_filter w name query st))) = created (trace st)"
  "resolutions (trace (snd (create_target_filter w name query st))) = resolutions (trace st)"
  by (simp_all add: create_target_filter_def split_def Let_def)

lemma observed_print_actions [simp]:
  "created (trace (print_actions acts st)) = created (trace st)"
  "resolutions (trace (print_actions acts st)) = resolutions (trace st)"
  by (induction acts arbitrary: st) simp_all

lemma observed_inspector [simp]:
  "created (trace (snd (get_assigned_ds w t st))) = created (trace st)"
  "created (trace (snd (get_installed_ds w t st))) = created (trace st)"
  "created (trace (get_firmware_history w t st)) = created (trace st)"
  "resolutions (trace (snd (get_assigned_ds w t st))) = resolutions (trace st)"
  "resolutions (trace (snd (get_installed_ds w t st))) = resolutions (trace st)"
  "resolutions (trace (get_firmware_history w t st)) = resolutions (trace st)"
  by (simp_all add: get_assigned_ds_def get_installed_ds_def get_firmware_history_def
        split_def Let_def)

lemma observed_check_targets [simp]:
  "created (trace (check_targets w targets st)) = created (trace st)"
  "resolutions (trace (check_targets w targets st)) = resolutions (trace st)"
  by (induction targets arbitrary: st) (simp_all add: Let_def)

lemma observed_fold_print [simp]:
  "created (trace (fold (\<lambda>k. py_print (f k)) ks st)) = created (trace st)"
  "resolutions (trace (fold (\<lambda>k. py_print (f k)) ks st)) = resolutions (trace st)"
  by (induction ks arbitrary: st) simp_all

text \<open>
  The loop of the driver: the bundle queries it sends are those of a prefix of the
  sequence, in order, the whole sequence when the loop returns; and the rollouts it asks
  for are those of the resolved bundles, each numbered with the position of its bundle.
\<close>

lemma main_loop_creates:
  "\<exists>rs. resolutions (trace (run_state
            (main_loop fuel w seq_choice serial_suffix query interval timeout n_total idx bundles st)))
          = resolutions (trace st) @ rs
       \<and> created (trace (run_state
            (main_loop fuel w seq_choice serial_suffix query interval timeout n_total idx bundles st)))
          = created (trace st) @ expected_creates seq_choice serial_suffix query idx rs
       \<and> map fst rs = take (length rs) (map (\<lambda>b. (ds_name b, ds_version b)) bundles)
       \<and> ((\<exists>s. main_loop fuel w seq_choice serial_suffix query interval timeout n_total idx bundles st
                 = Returned s) \<longrightarrow> length rs = length bundles)"
proof (induction bundles arbitrary: idx st)
  case Nil
  show ?case by simp
next
  case (Cons ds rest)
  let ?goal = ?case
  let ?st1 = "py_print (Driver (StartingRollout idx n_total (ds_name ds) (ds_version ds))) st"
  let ?res = "get_distribution_set w (ds_name ds) (ds_version ds) ?st1"
  let ?r0 = "((ds_name ds, ds_version ds), fst ?res)"
  let ?name = "rollout_name seq_choice serial_suffix idx"
  let ?cr = "create_rollout w ?name query (fst ?res) 1 ''forced'' (snd ?res)"
  let ?p = "position_payload seq_choice serial_suffix query idx (fst ?res)"
  have p: "\<lparr>rp_name = ?name, rp_distributionSetId = fst ?res, rp_targetFilterQuery = query,
            rp_actionType = ''forced'', rp_amountGroups = 1, rp_start = ''auto''\<rparr> = ?p"
    by (simp add: position_payload_def rollout_name_def ROLLOUT_PREFIX_def)
  have continue: "\<And>st4.
        resolutions (trace st4) = resolutions (trace st) @ [?r0] \<Longrightarrow>
        created (trace st4) = created (trace st) @ (if truthy (fst ?res) then [?p] else []) \<Longrightarrow>
        main_loop fuel w seq_choice serial_suffix query interval timeout n_total idx (ds # rest) st
          = main_loop fuel w seq_choice serial_suffix query interval timeout n_total (Suc idx) rest st4
        \<Longrightarrow> ?goal"
  proof -
    fix st4
    assume r: "resolutions (trace st4) = resolutions (trace st) @ [?r0]"
      and c: "created (trace st4) = created (trace st) @ (if truthy (fst ?res) then [?p] else [])"
      and eq: "main_loop fuel w seq_choice serial_suffix query interval timeout n_total idx (ds # rest) st
          = main_loop fuel w seq_choice serial_suffix query interval timeout n_total (Suc idx) rest st4"
    let ?next = "main_loop fuel w seq_choice serial_suffix query interval timeout n_total
                   (Suc idx) rest st4"
    from Cons.IH [of "Suc idx" st4] obtain rs where
      ih: "resolutions (trace (run_state ?next)) = resolutions (trace st4) @ rs"
        "created (trace (run_state ?next))
           = created (trace st4) @ expected_creates seq_choice serial_suffix query (Suc idx) rs"
        "map fst rs = take (length rs) (map (\<lambda>b. (ds_name b, ds_version b)) rest)"
        "(\<exists>s. ?next = Returned s) \<longrightarrow> length rs = length rest"
      by blast
    show ?goal
      unfolding eq using ih r c
      by (intro exI [of _ "?r0 # rs"]) simp
  qed
  show ?case
  proof (cases "truthy (fst ?res)")
    case False
    then have "main_loop fuel w seq_choice serial_suffix query interval timeout n_total idx (ds # rest) st
        = main_loop fuel w seq_choice serial_suffix query interval timeout n_total (Suc idx) rest
            (py_print (Driver SkippingDSNotFound) (snd ?res))"
      by (simp add: split_def Let_def)
    then show ?thesis
      using False by (intro continue) simp_all
  next
    case True
    show ?thesis
    proof (cases "truthy (fst ?cr)")
      case False
      then have "main_loop fuel w seq_choice serial_suffix query interval timeout n_total idx (ds # rest) st
          = main_loop fuel w seq_choice serial_suffix query interval timeout n_total (Suc idx) rest
              (py_print (Driver (RolloutNotCreated ?name)) (snd ?cr))"
        using True by (simp add: split_def Let_def)
      then show ?thesis
        using True p by (intro continue) simp_all
    next
      case rid: True
      let ?mon = "monitor_rollout_run fuel w (fst ?cr) interval timeout
                    (start_rollout w (fst ?cr) (snd ?cr))"
      have eq: "main_loop fuel w seq_choice serial_suffix query interval timeout n_total idx (ds # rest) st
             = (case ?mon of OutOfFuel st5 \<Rightarrow> OutOfFuel st5
                | Returned st5 \<Rightarrow> main_loop fuel w seq_choice serial_suffix query interval timeout
                                   n_total (Suc idx) rest st5)"
        using True rid by (simp add: split_def Let_def)
      have obs: "resolutions (trace (run_state ?mon)) = resolutions (trace st) @ [?r0]"
        "created (trace (run_state ?mon)) = created (trace st) @ [?p]"
        using p by simp_all
      show ?thesis
      proof (cases ?mon)
        case (Returned st5)
        then have "main_loop fuel w seq_choice serial_suffix query interval timeout n_total idx (ds # rest) st
            = main_loop fuel w seq_choice serial_suffix query interval timeout n_total (Suc idx) rest st5"
          using eq by simp
        then show ?thesis
          using obs True Returned by (intro continue) simp_all
      next
        case (OutOfFuel st5)
        then have "main_loop fuel w seq_choice serial_suffix query interval timeout n_total idx (ds # rest) st
            = OutOfFuel st5"
          using eq by simp
        then show ?thesis
          using obs True OutOfFuel by (intro exI [of _ "[?r0]"]) simp
      qed
    qed
  qed
qed

lemma main_sequence:
  assumes "map_of (sequences cfg) (strip typed) = Some bundles"
      and "collect_rows rows [] = first # others"
  shows "main fuel w cfg typed rows st =
     (let st0 = fold (\<lambda>k. py_print (Driver (SequenceKey k))) (map fst (sequences cfg))
                  (py_print (Driver AvailableSequences) st);
          query = or_query (first # others);
          serial_suffix = last_chars 5 first;
          st1 = py_print (Driver (QueryLine query)) (py_print (Driver (SerialSuffix serial_suffix)) st0);
          flt = create_target_filter w FILTER_NAME query st1 in
      if \<not> fst flt then Inr (Returned (py_print (Driver FilterStepFailed) (snd flt)))
      else
        (case main_loop fuel w (strip typed) serial_suffix query
                (poll_interval cfg) (poll_timeout cfg) (length bundles) 1 bundles (snd flt) of
           OutOfFuel st3 \<Rightarrow> Inr (OutOfFuel st3)
         | Returned st3 \<Rightarrow>
             Inr (Returned (check_targets w (first # others)
                              (py_print (Driver CheckingTargets) st3)))))"
proof -
  have gen: "generate_or_query rows = Inr (or_query (first # others), first # others)"
    using assms(2) by (simp add: generate_or_query_def Let_def)
  show ?thesis
    unfolding main_def Let_def assms(1) gen
    by (simp add: split_def del: main_loop.simps One_nat_def cong: run.case_cong)
qed

text \<open>
  Claim C10. Take a sequence key that the configuration knows and a device list whose
  first identifier is \<open>first\<close>; \<open>main\<close> then ends in a run \<open>res\<close>, whether or not its last
  monitor came to an end. The bundle queries of the run are those of the first bundles of
  the sequence, in order: the \<open>k\<close>-th query is for the \<open>k\<close>-th bundle. The
  rollout-creation requests of the run are, in order, one for each of these bundles whose
  query resolved to an identifier, and the request for the \<open>k\<close>-th bundle has group count
  1, action type \<^verbatim>\<open>forced\<close>, the resolved identifier, and the name \<^verbatim>\<open>Rollout_Seq_\<close> + key +
  \<^verbatim>\<open>_\<close> + the last five characters of \<open>first\<close> + \<^verbatim>\<open>_\<close> + \<open>k\<close> in decimal, counting from
  1. When \<open>main\<close> returns after a successful filter step, every bundle of the sequence
  has been queried. So for a fixed key and device list the name is a function of the
  position of the bundle alone.
\<close>

theorem main_rollout_payloads:
  assumes "map_of (sequences cfg) (strip typed) = Some bundles"
      and "collect_rows rows [] = first # others"
  shows "\<exists>res rs. main fuel w cfg typed rows st = Inr res
      \<and> resolutions (trace (run_state res)) = resolutions (trace st) @ rs
      \<and> map fst rs = take (length rs) (map (\<lambda>b. (ds_name b, ds_version b)) bundles)
      \<and> created (trace (run_state res))
          = created (trace st)
            @ expected_creates (strip typed) (last_chars 5 first) (or_query (first # others)) 1 rs
      \<and> ((\<exists>s. res = Returned s \<and> last (trace s) \<noteq> Printed (Driver FilterStepFailed))
           \<longrightarrow> length rs = length bundles)"
proof -
  let ?st0 = "fold (\<lambda>k. py_print (Driver (SequenceKey k))) (map fst (sequences cfg))
                (py_print (Driver AvailableSequences) st)"
  let ?query = "or_query (first # others)"
  let ?suffix = "last_chars 5 first"
  let ?st1 = "py_print (Driver (QueryLine ?query)) (py_print (Driver (SerialSuffix ?suffix)) ?st0)"
  let ?flt = "create_target_filter w FILTER_NAME ?query ?st1"
  let ?loop = "main_loop fuel w (strip typed) ?suffix ?query (poll_interval cfg) (poll_timeout cfg)
                 (length bundles) 1 bundles (snd ?flt)"
  have flt: "created (trace (snd ?flt)) = created (trace st)"
    "resolutions (trace (snd ?flt)) = resolutions (trace st)"
    by simp_all
  have m: "main fuel w cfg typed rows st =
      (if \<not> fst ?flt then Inr (Returned (py_print (Driver FilterStepFailed) (snd ?flt)))
       else case ?loop of OutOfFuel st3 \<Rightarrow> Inr (OutOfFuel st3)
            | Returned st3 \<Rightarrow> Inr (Returned (check_targets w (first # others)
                                      (py_print (Driver CheckingTargets) st3))))"
    unfolding main_sequence [OF assms] Let_def ..
  show ?thesis
  proof (cases "fst ?flt")
    case False
    then have "main fuel w cfg typed rows st
               = Inr (Returned (py_print (Driver FilterStepFailed) (snd ?flt)))"
      unfolding m by simp
    then show ?thesis
      using flt
      by (intro exI [of _ "Returned (py_print (Driver FilterStepFailed) (snd ?flt))"]
                exI [of _ "[]"]) simp
  next
    case True
    from main_loop_creates [of fuel w "strip typed" ?suffix ?query "poll_interval cfg"
           "poll_timeout cfg" "length bundles" 1 bundles "snd ?flt"]
    obtain rs where
      rs: "resolutions (trace (run_state ?loop)) = resolutions (trace (snd ?flt)) @ rs"
        "created (trace (run_state ?loop))
           = created (trace (snd ?flt)) @ expected_creates (strip typed) ?suffix ?query 1 rs"
        "map fst rs = take (length rs) (map (\<lambda>b. (ds_name b, ds_version b)) bundles)"
        "(\<exists>s. ?loop = Returned s) \<longrightarrow> length rs = length bundles"
      by blast
    show ?thesis
    proof (cases ?loop)
      case (OutOfFuel st3)
      then have "main fuel w cfg typed rows st = Inr (OutOfFuel st3)"
        using True unfolding m by simp
      then show ?thesis
        using rs flt OutOfFuel
        by (intro exI [of _ "OutOfFuel st3"] exI [of _ rs]) simp
    next
      case (Returned st3)
      let ?end = "check_targets w (first # others) (py_print (Driver CheckingTargets) st3)"
      have "main fuel w cfg typed rows st = Inr (Returned ?end)"
        using True Returned unfolding m by simp
      then show ?thesis
        using rs flt Returned
        by (intro exI [of _ "Returned ?end"] exI [of _ rs]) simp
    qed
  qed
qed

text \<open>Evaluating the loops on numerals, one iteration at a time.\<close>

lemmas wait_ready_numeral =
  wait_ready.simps(2) [of "pred_numeral k" for k, folded numeral_eq_Suc]

lemmas monitor_run_numeral =
  monitor_run.simps(2) [of "pred_numeral k" for k, folded numeral_eq_Suc]

lemma replicate_unfold: "replicate (numeral k) x = x # replicate (pred_numeral k) x"
  by (simp add: numeral_eq_Suc)

lemma str_nat_examples:
  "str_nat 1 = ''1''" "str_nat (Suc 0) = ''1''"
  "str_nat 2 = ''2''" "str_nat (Suc 1) = ''2''" "str_nat (Suc (Suc 0)) = ''2''"
  by code_simp+

lemma rollout_name_examples:
  "rollout_name ''1.1'' ''00001'' 1 = ''Rollout_Seq_1.1_00001_1''"
  "rollout_name ''1.1'' ''00001'' (Suc 0) = ''Rollout_Seq_1.1_00001_1''"
  "rollout_name ''1.1'' ''00001'' 2 = ''Rollout_Seq_1.1_00001_2''"
  "rollout_name ''1.1'' ''00001'' (Suc 1) = ''Rollout_Seq_1.1_00001_2''"
  "rollout_name ''1.1'' ''00001'' (Suc (Suc 0)) = ''Rollout_Seq_1.1_00001_2''"
  by (simp_all only: rollout_name_def ROLLOUT_PREFIX_def str_nat_examples append.simps)

lemmas run_defs =
  get_distribution_set_def create_rollout_def start_rollout_def create_target_filter_def
  monitor_rollout_run_def terminal_status_def listing_def get_or_def resolved_id_def
  http_def py_print_def sleep_def Let_def wait_ready_numeral monitor_run_numeral
  rollout_name_examples init_state_def fw_entries_def reply_def empty_body_def
  creating_def ready_reply_def running_def finished_def

text \<open>
  The end-to-end scenario: \<open>main\<close> returns after the filter step, both bundles are
  queried, the first is not listed and the second resolves to 42, and the one rollout
  that is created is named after the second position, \<^verbatim>\<open>Rollout_Seq_1.1_00001_2\<close>.
\<close>

lemma happy_inputs:
  "map_of (sequences sample_config) (strip '' 1.1'')
     = Some [\<lparr>ds_name = ''fw'', ds_version = ''0.9''\<rparr>, \<lparr>ds_name = ''fw'', ds_version = ''1.1''\<rparr>]"
  "collect_rows [[''SN00001'', ''SN00002'']] [] = ''SN00001'' # [''SN00002'']"
  "strip '' 1.1'' = ''1.1''" "last_chars 5 ''SN00001'' = ''00001''"
  by (simp_all add: sample_config_def strip_def is_space_def last_chars_def)

lemma happy_run:
  "\<exists>s. main 2 happy_world sample_config '' 1.1'' [[''SN00001'', ''SN00002'']] init_state
          = Inr (Returned s)
      \<and> last (trace s) \<noteq> Printed (Driver FilterStepFailed)
      \<and> resolutions (trace s)
          = [((''fw'', ''0.9''), PNone), ((''fw'', ''1.1''), PInt 42)]
      \<and> created (trace s)
          = [\<lparr>rp_name = ''Rollout_Seq_1.1_00001_2'', rp_distributionSetId = PInt 42,
               rp_targetFilterQuery = or_query [''SN00001'', ''SN00002''],
               rp_actionType = ''forced'', rp_amountGroups = 1, rp_start = ''auto''\<rparr>]"
  unfolding main_sequence [OF happy_inputs(1,2)] happy_inputs(3,4)
  by (simp add: run_defs sample_config_def FILTER_NAME_def)

theorem main_rollout_payloads_witness:
  "\<exists>res rs.
      main 2 happy_world sample_config '' 1.1'' [[''SN00001'', ''SN00002'']] init_state = Inr res
    \<and> resolutions (trace (run_state res)) = resolutions (trace init_state) @ rs
    \<and> map fst rs = take (length rs) (map (\<lambda>b. (ds_name b, ds_version b))
                      [\<lparr>ds_name = ''fw'', ds_version = ''0.9''\<rparr>, \<lparr>ds_name = ''fw'', ds_version = ''1.1''\<rparr>])
    \<and> created (trace (run_state res))
        = created (trace init_state)
          @ expected_creates ''1.1'' ''00001'' (or_query [''SN00001'', ''SN00002'']) 1 rs
    \<and> ((\<exists>s. res = Returned s \<and> last (trace s) \<noteq> Printed (Driver FilterStepFailed))
         \<longrightarrow> length rs = length [\<lparr>ds_name = ''fw'', ds_version = ''0.9''\<rparr>,
                                   \<lparr>ds_name = ''fw'', ds_version = ''1.1''\<rparr>])
    \<and> (\<exists>s. res = Returned s \<and> last (trace s) \<noteq> Printed (Driver FilterStepFailed))
    \<and> rs = [((''fw'', ''0.9''), PNone), ((''fw'', ''1.1''), PInt 42)]
    \<and> created (trace (run_state res))
        = [\<lparr>rp_name = ''Rollout_Seq_1.1_00001_2'', rp_distributionSetId = PInt 42,
             rp_targetFilterQuery = or_query [''SN00001'', ''SN00002''],
             rp_actionType = ''forced'', rp_amountGroups = 1, rp_start = ''auto''\<rparr>]"
proof -
  from happy_run obtain s where
    run: "main 2 happy_world sample_config '' 1.1'' [[''SN00001'', ''SN00002'']] init_state
          = Inr (Returned s)"
    and fin: "last (trace s) \<noteq> Printed (Driver FilterStepFailed)"
    and res: "resolutions (trace s) = [((''fw'', ''0.9''), PNone), ((''fw'', ''1.1''), PInt 42)]"
    and cre: "created (trace s)
          = [\<lparr>rp_name = ''Rollout_Seq_1.1_00001_2'', rp_distributionSetId = PInt 42,
               rp_targetFilterQuery = or_query [''SN00001'', ''SN00002''],
               rp_actionType = ''forced'', rp_amountGroups = 1, rp_start = ''auto''\<rparr>]"
    by blast
  have init: "resolutions (trace init_state) = []"
    by (simp add: init_state_def)
  from main_rollout_payloads [OF happy_inputs(1) happy_inputs(2),
      where fuel = 2 and w = happy_world and st = init_state]
  obtain res' rs where
    inst: "main 2 happy_world sample_config '' 1.1'' [[''SN00001'', ''SN00002'']] init_state = Inr res'"
      "resolutions (trace (run_state res')) = resolutions (trace init_state) @ rs"
      "map fst rs = take (length rs) (map (\<lambda>b. (ds_name b, ds_version b))
                      [\<lparr>ds_name = ''fw'', ds_version = ''0.9''\<rparr>, \<lparr>ds_name = ''fw'', ds_version = ''1.1''\<rparr>])"
      "created (trace (run_state res'))
        = created (trace init_state)
          @ expected_creates ''1.1'' ''00001'' (or_query [''SN00001'', ''SN00002'']) 1 rs"
      "(\<exists>s. res' = Returned s \<and> last (trace s) \<noteq> Printed (Driver FilterStepFailed))
         \<longrightarrow> length rs = length [\<lparr>ds_name = ''fw'', ds_version = ''0.9''\<rparr>,
                                   \<lparr>ds_name = ''fw'', ds_version = ''1.1''\<rparr>]"
    unfolding happy_inputs(3,4) by blast
  from inst(1) run have eq: "res' = Returned s" by simp
  from inst(2) res init eq have rs: "rs = [((''fw'', ''0.9''), PNone), ((''fw'', ''1.1''), PInt 42)]"
    by simp
  from cre eq have cre': "created (trace (run_state res'))
        = [\<lparr>rp_name = ''Rollout_Seq_1.1_00001_2'', rp_distributionSetId = PInt 42,
             rp_targetFilterQuery = or_query [''SN00001'', ''SN00002''],
             rp_actionType = ''forced'', rp_amountGroups = 1, rp_start = ''auto''\<rparr>]"
    by simp
  from eq fin have ret: "\<exists>s. res' = Returned s \<and> last (trace s) \<noteq> Printed (Driver FilterStepFailed)"
    by simp
  from inst ret rs cre' show ?thesis
    by (intro exI [of _ res'] exI [of _ rs] conjI)
qed

text \<open>Every component only appends to the trace.\<close>

lemma monitor_run_extends:
  "\<exists>evs. trace (run_state (monitor_run fuel w rid interval timeout start st)) = trace st @ evs"
proof (induction fuel arbitrary: st)
  case 0
  show ?case by simp
next
  case (Suc fuel)
  let ?r = "w (trace st) (GetRollout rid)"
  let ?st1 = "snd (http w (GetRollout rid) st)"
  let ?failed = "sleep interval (py_print (Monitor (ProgressFetchFailed (status_code ?r))) ?st1)"
  let ?st2 = "py_print (Monitor (ProgressLine (b_status (resp_json ?r))
                     (get_or (PInt 0) (b_totalTargetsCompleted (resp_json ?r)))
                     (get_or (PInt 0) (b_totalTargetsFailed (resp_json ?r)))
                     (get_or (PInt 0) (b_totalTargetsPending (resp_json ?r)))
                     (get_or (PInt 0) (b_totalTargets (resp_json ?r))))) ?st1"
  consider (failed) "status_code ?r \<noteq> 200"
    | (ended) "status_code ?r = 200" "terminal_status (b_status (resp_json ?r))"
    | (timed_out) "status_code ?r = 200" "\<not> terminal_status (b_status (resp_json ?r))"
        "timeout < clock ?st2 - start"
    | (again) "status_code ?r = 200" "\<not> terminal_status (b_status (resp_json ?r))"
        "\<not> timeout < clock ?st2 - start"
    by blast
  then show ?case
  proof cases
    case failed
    then have eq: "monitor_run (Suc fuel) w rid interval timeout start st
              = monitor_run fuel w rid interval timeout start ?failed"
      by (simp add: split_def Let_def)
    from Suc.IH [of ?failed] obtain evs where
      "trace (run_state (monitor_run fuel w rid interval timeout start ?failed))
         = trace ?failed @ evs" ..
    then show ?thesis
      unfolding eq by simp
  next
    case ended
    then show ?thesis
      by (simp add: split_def Let_def)
  next
    case timed_out
    then show ?thesis
      by (simp add: split_def Let_def)
  next
    case again
    then have eq: "monitor_run (Suc fuel) w rid interval timeout start st
              = monitor_run fuel w rid interval timeout start (sleep interval ?st2)"
      by (simp add: split_def Let_def)
    from Suc.IH [of "sleep interval ?st2"] obtain evs where
      "trace (run_state (monitor_run fuel w rid interval timeout start (sleep interval ?st2)))
         = trace (sleep interval ?st2) @ evs" ..
    then show ?thesis
      unfolding eq by simp
  qed
qed

lemma monitor_run_first_step:
  "\<exists>evs. trace (run_state (monitor_run (Suc n) w rid interval timeout start st))
          = trace st @ Http (GetRollout rid) (w (trace st) (GetRollout rid)) # evs"
proof -
  let ?r = "w (trace st) (GetRollout rid)"
  let ?st1 = "snd (http w (GetRollout rid) st)"
  let ?failed = "sleep interval (py_print (Monitor (ProgressFetchFailed (status_code ?r))) ?st1)"
  let ?st2 = "py_print (Monitor (ProgressLine (b_status (resp_json ?r))
                     (get_or (PInt 0) (b_totalTargetsCompleted (resp_json ?r)))
                     (get_or (PInt 0) (b_totalTargetsFailed (resp_json ?r)))
                     (get_or (PInt 0) (b_totalTargetsPending (resp_json ?r)))
                     (get_or (PInt 0) (b_totalTargets (resp_json ?r))))) ?st1"
  consider (failed) "status_code ?r \<noteq> 200"
    | (ended) "status_code ?r = 200" "terminal_status (b_status (resp_json ?r))"
    | (timed_out) "status_code ?r = 200" "\<not> terminal_status (b_status (resp_json ?r))"
        "timeout < clock ?st2 - start"
    | (again) "status_code ?r = 200" "\<not> terminal_status (b_status (resp_json ?r))"
        "\<not> timeout < clock ?st2 - start"
    by blast
  then show ?thesis
  proof cases
    case failed
    then have eq: "monitor_run (Suc n) w rid interval timeout start st
              = monitor_run n w rid interval timeout start ?failed"
      by (simp add: split_def Let_def)
    from monitor_run_extends [of n w rid interval timeout start ?failed] obtain evs where
      "trace (run_state (monitor_run n w rid interval timeout start ?failed))
         = trace ?failed @ evs" ..
    then show ?thesis
      unfolding eq by simp
  next
    case ended
    then show ?thesis
      by (simp add: split_def Let_def)
  next
    case timed_out
    then show ?thesis
      by (simp add: split_def Let_def)
  next
    case again
    then have eq: "monitor_run (Suc n) w rid interval timeout start st
              = monitor_run n w rid interval timeout start (sleep interval ?st2)"
      by (simp add: split_def Let_def)
    from monitor_run_extends [of n w rid interval timeout start "sleep interval ?st2"] obtain evs where
      "trace (run_state (monitor_run n w rid interval timeout start (sleep interval ?st2)))
         = trace (sleep interval ?st2) @ evs" ..
    then show ?thesis
      unfolding eq by simp
  qed
qed

lemma monitor_run_first_poll:
  assumes "0 < fuel"
  shows "\<exists>r evs. trace (run_state (monitor_rollout_run fuel w rid interval timeout st))
           = trace st @ Printed (Monitor MonitoringProgress) # Http (GetRollout rid) r # evs"
proof -
  obtain n where n: "fuel = Suc n"
    using assms by (cases fuel) auto
  let ?st0 = "py_print (Monitor MonitoringProgress) st"
  have run: "monitor_rollout_run fuel w rid interval timeout st
             = monitor_run (Suc n) w rid interval timeout (clock st) ?st0"
    using n by (simp add: monitor_rollout_run_def Let_def del: monitor_run.simps)
  from monitor_run_first_step [of n w rid interval timeout "clock st" ?st0] obtain evs where
    "trace (run_state (monitor_run (Suc n) w rid interval timeout (clock st) ?st0))
       = trace ?st0 @ Http (GetRollout rid) (w (trace ?st0) (GetRollout rid)) # evs" ..
  then show ?thesis
    unfolding run by simp
qed

lemma monitor_rollout_run_extends:
  "\<exists>evs. trace (run_state (monitor_rollout_run fuel w rid interval timeout st)) = trace st @ evs"
proof -
  let ?st0 = "py_print (Monitor MonitoringProgress) st"
  from monitor_run_extends [of fuel w rid interval timeout "clock st" ?st0] obtain evs where
    "trace (run_state (monitor_run fuel w rid interval timeout (clock st) ?st0)) = trace ?st0 @ evs" ..
  then show ?thesis
    by (simp add: monitor_rollout_run_def Let_def)
qed

lemma start_rollout_extends:
  "\<exists>evs. trace (start_rollout w rid st) = trace st @ evs"
proof -
  from wait_ready_events [of 20 w rid st] obtain evs where
    "trace (snd (wait_ready 20 w rid st)) = trace st @ evs"
    by blast
  then show ?thesis
    by (auto simp add: start_rollout_def split_def Let_def)
qed

lemma main_loop_extends:
  "\<exists>evs. trace (run_state
            (main_loop fuel w seq_choice serial_suffix query interval timeout n_total idx bundles st))
          = trace st @ evs"
proof (induction bundles arbitrary: idx st)
  case Nil
  show ?case by simp
next
  case (Cons ds rest)
  let ?goal = ?case
  let ?st1 = "py_print (Driver (StartingRollout idx n_total (ds_name ds) (ds_version ds))) st"
  let ?res = "get_distribution_set w (ds_name ds) (ds_version ds) ?st1"
  let ?name = "rollout_name seq_choice serial_suffix idx"
  let ?cr = "create_rollout w ?name query (fst ?res) 1 ''forced'' (snd ?res)"
  have res: "\<exists>evs. trace (snd ?res) = trace st @ evs"
    by (simp add: get_distribution_set_def http_def py_print_def Let_def split: option.splits)
  then have cr: "\<exists>evs. trace (snd ?cr) = trace st @ evs"
    by (auto simp add: create_rollout_def http_def py_print_def Let_def)
  have continue: "\<And>st4. \<exists>evs. trace st4 = trace st @ evs \<Longrightarrow>
        main_loop fuel w seq_choice serial_suffix query interval timeout n_total idx (ds # rest) st
          = main_loop fuel w seq_choice serial_suffix query interval timeout n_total (Suc idx) rest st4
        \<Longrightarrow> ?goal"
  proof -
    fix st4
    assume "\<exists>evs. trace st4 = trace st @ evs"
      and eq: "main_loop fuel w seq_choice serial_suffix query interval timeout n_total idx (ds # rest) st
          = main_loop fuel w seq_choice serial_suffix query interval timeout n_total (Suc idx) rest st4"
    then obtain evs where evs: "trace st4 = trace st @ evs" by blast
    from Cons.IH [of "Suc idx" st4] obtain more where
      "trace (run_state (main_loop fuel w seq_choice serial_suffix query interval timeout n_total
                (Suc idx) rest st4)) = trace st4 @ more" ..
    then show ?goal
      unfolding eq using evs by simp
  qed
  show ?case
  proof (cases "truthy (fst ?res)")
    case False
    then have "main_loop fuel w seq_choice serial_suffix query interval timeout n_total idx (ds # rest) st
        = main_loop fuel w seq_choice serial_suffix query interval timeout n_total (Suc idx) rest
            (py_print (Driver SkippingDSNotFound) (snd ?res))"
      by (simp add: split_def Let_def)
    then show ?thesis
      using res by (intro continue) auto
  next
    case True
    show ?thesis
    proof (cases "truthy (fst ?cr)")
      case False
      then have "main_loop fuel w seq_choice serial_suffix query interval timeout n_total idx (ds # rest) st
          = main_loop fuel w seq_choice serial_suffix query interval timeout n_total (Suc idx) rest
              (py_print (Driver (RolloutNotCreated ?name)) (snd ?cr))"
        using True by (simp add: split_def Let_def)
      then show ?thesis
        using cr by (intro continue) auto
    next
      case rid: True
      let ?st4 = "start_rollout w (fst ?cr) (snd ?cr)"
      let ?mon = "monitor_rollout_run fuel w (fst ?cr) interval timeout ?st4"
      have eq: "main_loop fuel w seq_choice serial_suffix query interval timeout n_total idx (ds # rest) st
             = (case ?mon of OutOfFuel st5 \<Rightarrow> OutOfFuel st5
                | Returned st5 \<Rightarrow> main_loop fuel w seq_choice serial_suffix query interval timeout
                                   n_total (Suc idx) rest st5)"
        using True rid by (simp add: split_def Let_def)
      obtain e1 where e1: "trace (snd ?cr) = trace st @ e1"
        using cr by blast
      obtain e2 where e2: "trace ?st4 = trace (snd ?cr) @ e2"
        using start_rollout_extends [of w "fst ?cr" "snd ?cr"] by blast
      obtain e3 where e3: "trace (run_state ?mon) = trace ?st4 @ e3"
        using monitor_rollout_run_extends [of fuel w "fst ?cr" interval timeout ?st4] by blast
      have mon: "\<exists>evs. trace (run_state ?mon) = trace st @ evs"
        using e1 e2 e3 by simp
      show ?thesis
      proof (cases ?mon)
        case (Returned st5)
        then have "main_loop fuel w seq_choice serial_suffix query interval timeout n_total idx (ds # rest) st
            = main_loop fuel w seq_choice serial_suffix query interval timeout n_total (Suc idx) rest st5"
          using eq by simp
        then show ?thesis
          using mon Returned by (intro continue) auto
      next
        case (OutOfFuel st5)
        then show ?thesis
          using eq mon by simp
      qed
    qed
  qed
qed

lemma timed_out_activation:
  assumes "truthy rid"
      and "last (trace (start_rollout w rid st)) = Printed (Activator ReadyTimeout)"
  shows "\<exists>evs. trace (start_rollout w rid st) = trace st @ evs @ [Printed (Activator ReadyTimeout)]
           \<and> requests evs = replicate 20 (GetRollout rid)"
proof -
  from wait_ready_events [of 20 w rid st] obtain evs where
    evs: "trace (snd (wait_ready 20 w rid st)) = trace st @ evs"
      "requests evs = replicate (length (polls rid evs)) (GetRollout rid)"
      "\<not> fst (wait_ready 20 w rid st) \<longrightarrow> length (polls rid evs) = 20"
    by blast
  have "\<not> fst (wait_ready 20 w rid st)"
  proof
    assume "fst (wait_ready 20 w rid st)"
    then have "\<exists>m. last (trace (start_rollout w rid st)) = Printed (Activator m) \<and> m \<noteq> ReadyTimeout"
      using assms(1) by (auto simp add: start_rollout_def split_def Let_def)
    with assms(2) show False by auto
  qed
  then have "start_rollout w rid st = py_print (Activator ReadyTimeout) (snd (wait_ready 20 w rid st))"
    "length (polls rid evs) = 20"
    using assms(1) evs(3) by (simp_all add: start_rollout_def split_def)
  then show ?thesis
    using evs(1,2) by (intro exI [of _ evs]) simp
qed

text \<open>
  Claim C3, as amended. Take any bundle of the sequence whose distribution set resolves
  and whose rollout is created, and suppose the activation of that rollout times out.
  Then the activator has polled 20 times and sent no start command, and the driver,
  which does not look at the outcome of the activation, still runs the monitor on that
  rollout: in every run of the driver, whether or not that monitor ever comes to an end,
  the timeout report of the activator is followed by the banner of the monitor and by a
  poll of the rollout. The driver goes on to the next bundle only when the monitor has
  returned, from the state in which it returned.
\<close>

theorem activation_timeout_still_monitored:
  assumes "get_distribution_set w (ds_name ds) (ds_version ds)
             (py_print (Driver (StartingRollout idx n_total (ds_name ds) (ds_version ds))) st)
           = (ds_id, st2)"
      and "truthy ds_id"
      and "create_rollout w (rollout_name seq_choice serial_suffix idx) query ds_id 1 ''forced'' st2
           = (rid, st3)"
      and "truthy rid"
      and "last (trace (start_rollout w rid st3)) = Printed (Activator ReadyTimeout)"
      and "0 < fuel"
  shows "\<exists>polled r evs.
       trace (start_rollout w rid st3) = trace st3 @ polled @ [Printed (Activator ReadyTimeout)]
     \<and> requests polled = replicate 20 (GetRollout rid)
     \<and> trace (run_state
          (main_loop fuel w seq_choice serial_suffix query interval timeout n_total idx (ds # rest) st))
         = trace (start_rollout w rid st3)
           @ Printed (Monitor MonitoringProgress) # Http (GetRollout rid) r # evs
     \<and> main_loop fuel w seq_choice serial_suffix query interval timeout n_total idx (ds # rest) st
         = (case monitor_rollout_run fuel w rid interval timeout (start_rollout w rid st3) of
              OutOfFuel st5 \<Rightarrow> OutOfFuel st5
            | Returned st5 \<Rightarrow>
                main_loop fuel w seq_choice serial_suffix query interval timeout n_total
                  (Suc idx) rest st5)"
proof -
  let ?st4 = "start_rollout w rid st3"
  let ?mon = "monitor_rollout_run fuel w rid interval timeout ?st4"
  let ?next = "\<lambda>st5. main_loop fuel w seq_choice serial_suffix query interval timeout n_total
                       (Suc idx) rest st5"
  have eq: "main_loop fuel w seq_choice serial_suffix query interval timeout n_total idx (ds # rest) st
        = (case ?mon of OutOfFuel st5 \<Rightarrow> OutOfFuel st5 | Returned st5 \<Rightarrow> ?next st5)"
    using assms(1-4) by (simp add: Let_def)
  from monitor_run_first_poll [OF assms(6), of w rid interval timeout ?st4] obtain r evs where
    first: "trace (run_state ?mon)
            = trace ?st4 @ Printed (Monitor MonitoringProgress) # Http (GetRollout rid) r # evs"
    by blast
  from timed_out_activation [OF assms(4,5)] obtain polled where
    act: "trace ?st4 = trace st3 @ polled @ [Printed (Activator ReadyTimeout)]"
      "requests polled = replicate 20 (GetRollout rid)"
    by blast
  have "\<exists>evs'. trace (run_state (main_loop fuel w seq_choice serial_suffix query interval timeout
                  n_total idx (ds # rest) st))
          = trace ?st4 @ Printed (Monitor MonitoringProgress) # Http (GetRollout rid) r # evs'"
  proof (cases ?mon)
    case (OutOfFuel st5)
    then show ?thesis
      using eq first by simp
  next
    case (Returned st5)
    from main_loop_extends [of fuel w seq_choice serial_suffix query interval timeout n_total
           "Suc idx" rest st5]
    obtain more where "trace (run_state (?next st5)) = trace st5 @ more"
      by blast
    then show ?thesis
      using eq first Returned by simp
  qed
  with act eq show ?thesis by blast
qed

text \<open>
  On \<open>stuck_world\<close> and on \<open>down_world\<close> the rollout of the first of two bundles is
  created and never becomes ready: the hypotheses hold there. On \<open>down_world\<close> every
  poll fails, and the monitor is still polling after three polls.
\<close>

lemma sample_ids:
  "fst (resolved_on stuck_world) = PInt 42" "fst (created_on stuck_world) = PInt 7"
  "fst (resolved_on down_world) = PInt 42" "fst (created_on down_world) = PInt 7"
  by (simp_all add: resolved_on_def created_on_def fw_1_1_def run_defs)

lemma sample_timeouts:
  "last (trace (start_rollout stuck_world (PInt 7) (snd (created_on stuck_world))))
     = Printed (Activator ReadyTimeout)"
  "last (trace (start_rollout down_world (PInt 7) (snd (created_on down_world))))
     = Printed (Activator ReadyTimeout)"
  by (simp_all add: resolved_on_def created_on_def fw_1_1_def run_defs)

lemma down_run:
  "(case main_loop 3 down_world ''1.1'' ''00001'' ''q'' 10 5 2 1 [fw_1_1, fw_1_0] init_state of
      OutOfFuel s \<Rightarrow> True | Returned s \<Rightarrow> False)"
  by (simp add: fw_1_1_def fw_1_0_def run_defs)

theorem activation_timeout_still_monitored_witness:
  "(\<exists>polled r evs.
       trace (start_rollout stuck_world (PInt 7) (snd (created_on stuck_world)))
         = trace (snd (created_on stuck_world)) @ polled @ [Printed (Activator ReadyTimeout)]
     \<and> requests polled = replicate 20 (GetRollout (PInt 7))
     \<and> trace (run_state
          (main_loop 3 stuck_world ''1.1'' ''00001'' ''q'' 10 5 2 1 (fw_1_1 # [fw_1_0]) init_state))
         = trace (start_rollout stuck_world (PInt 7) (snd (created_on stuck_world)))
           @ Printed (Monitor MonitoringProgress) # Http (GetRollout (PInt 7)) r # evs
     \<and> main_loop 3 stuck_world ''1.1'' ''00001'' ''q'' 10 5 2 1 (fw_1_1 # [fw_1_0]) init_state
         = (case monitor_rollout_run 3 stuck_world (PInt 7) 10 5
                   (start_rollout stuck_world (PInt 7) (snd (created_on stuck_world))) of
              OutOfFuel st5 \<Rightarrow> OutOfFuel st5
            | Returned st5 \<Rightarrow>
                main_loop 3 stuck_world ''1.1'' ''00001'' ''q'' 10 5 2 (Suc 1) [fw_1_0] st5))
   \<and> (\<exists>polled r evs.
       trace (start_rollout down_world (PInt 7) (snd (created_on down_world)))
         = trace (snd (created_on down_world)) @ polled @ [Printed (Activator ReadyTimeout)]
     \<and> requests polled = replicate 20 (GetRollout (PInt 7))
     \<and> trace (run_state
          (main_loop 3 down_world ''1.1'' ''00001'' ''q'' 10 5 2 1 (fw_1_1 # [fw_1_0]) init_state))
         = trace (start_rollout down_world (PInt 7) (snd (created_on down_world)))
           @ Printed (Monitor MonitoringProgress) # Http (GetRollout (PInt 7)) r # evs
     \<and> main_loop 3 down_world ''1.1'' ''00001'' ''q'' 10 5 2 1 (fw_1_1 # [fw_1_0]) init_state
         = (case monitor_rollout_run 3 down_world (PInt 7) 10 5
                   (start_rollout down_world (PInt 7) (snd (created_on down_world))) of
              OutOfFuel st5 \<Rightarrow> OutOfFuel st5
            | Returned st5 \<Rightarrow>
                main_loop 3 down_world ''1.1'' ''00001'' ''q'' 10 5 2 (Suc 1) [fw_1_0] st5))
   \<and> (case main_loop 3 down_world ''1.1'' ''00001'' ''q'' 10 5 2 1 [fw_1_1, fw_1_0] init_state of
         OutOfFuel s \<Rightarrow> True | Returned s \<Rightarrow> False)"
proof -
  have resolved: "get_distribution_set w (ds_name fw_1_1) (ds_version fw_1_1)
      (py_print (Driver (StartingRollout 1 2 (ds_name fw_1_1) (ds_version fw_1_1))) init_state)
      = (PInt 42, snd (resolved_on w))" if "fst (resolved_on w) = PInt 42" for w
    using that by (simp add: resolved_on_def prod_eq_iff)
  have created: "create_rollout w (rollout_name ''1.1'' ''00001'' 1) ''q'' (PInt 42) 1
      ''forced'' (snd (resolved_on w)) = (PInt 7, snd (created_on w))"
    if "fst (resolved_on w) = PInt 42" "fst (created_on w) = PInt 7" for w
    using that by (simp add: created_on_def prod_eq_iff)
  have t42: "truthy (PInt 42)" and t7: "truthy (PInt 7)" and fuel: "0 < (3::nat)"
    by simp_all
  note stuck = activation_timeout_still_monitored
    [where interval = 10 and timeout = 5 and rest = "[fw_1_0]",
     OF resolved [OF sample_ids(1)] t42 created [OF sample_ids(1,2)] t7 sample_timeouts(1) fuel]
  note down = activation_timeout_still_monitored
    [where interval = 10 and timeout = 5 and rest = "[fw_1_0]",
     OF resolved [OF sample_ids(3)] t42 created [OF sample_ids(3,4)] t7 sample_timeouts(2) fuel]
  from stuck down down_run show ?thesis
    by (intro conjI)
qed

text \<open>
  Claim C3 as stated says that the monitor loop is never entered after an activation
  timeout. On \<open>stuck_world\<close>, with interval 10 and timeout 5, the timeout report of the
  activator is followed by the banner of the monitor, two progress lines and the timeout
  of the monitor; of the 22 polls of the rollout, 20 are the activator's and 2 the
  monitor's.
\<close>

lemma stuck_printed:
  "printed (trace (run_state
     (main_loop 2 stuck_world ''1.1'' ''00001'' ''q'' 10 5 1 1 [fw_1_1] init_state)))
   = [Driver (StartingRollout 1 1 ''fw'' ''1.1''),
      Resolver (DSFound ''fw'' ''1.1'' (PInt 42)),
      Creator (RolloutPayload
        \<lparr>rp_name = ''Rollout_Seq_1.1_00001_1'', rp_distributionSetId = PInt 42,
          rp_targetFilterQuery = ''q'', rp_actionType = ''forced'', rp_amountGroups = 1,
          rp_start = ''auto''\<rparr>),
      Creator (RolloutCreated ''Rollout_Seq_1.1_00001_1'' (PInt 7))]
     @ replicate 20 (Activator (RolloutStatus (PStr ''creating'')))
     @ [Activator ReadyTimeout,
        Monitor MonitoringProgress,
        Monitor (ProgressLine (PStr ''creating'') (PInt 0) (PInt 0) (PInt 0) (PInt 0)),
        Monitor (ProgressLine (PStr ''creating'') (PInt 0) (PInt 0) (PInt 0) (PInt 0)),
        Monitor TimeoutReached]"
  by (simp add: fw_1_1_def run_defs replicate_unfold)

lemma stuck_requests:
  "requests (trace (run_state
     (main_loop 2 stuck_world ''1.1'' ''00001'' ''q'' 10 5 1 1 [fw_1_1] init_state)))
   = [FindDistributionSet ''fw'' ''1.1'',
      CreateRollout
        \<lparr>rp_name = ''Rollout_Seq_1.1_00001_1'', rp_distributionSetId = PInt 42,
          rp_targetFilterQuery = ''q'', rp_actionType = ''forced'', rp_amountGroups = 1,
          rp_start = ''auto''\<rparr>]
     @ replicate 22 (GetRollout (PInt 7))"
  by (simp add: fw_1_1_def run_defs replicate_unfold)

theorem activation_timeout_counterexample:
  "printed (trace (run_state
     (main_loop 2 stuck_world ''1.1'' ''00001'' ''q'' 10 5 1 1 [fw_1_1] init_state)))
   = [Driver (StartingRollout 1 1 ''fw'' ''1.1''),
      Resolver (DSFound ''fw'' ''1.1'' (PInt 42)),
      Creator (RolloutPayload
        \<lparr>rp_name = ''Rollout_Seq_1.1_00001_1'', rp_distributionSetId = PInt 42,
          rp_targetFilterQuery = ''q'', rp_actionType = ''forced'', rp_amountGroups = 1,
          rp_start = ''auto''\<rparr>),
      Creator (RolloutCreated ''Rollout_Seq_1.1_00001_1'' (PInt 7))]
     @ replicate 20 (Activator (RolloutStatus (PStr ''creating'')))
     @ [Activator ReadyTimeout,
        Monitor MonitoringProgress,
        Monitor (ProgressLine (PStr ''creating'') (PInt 0) (PInt 0) (PInt 0) (PInt 0)),
        Monitor (ProgressLine (PStr ''creating'') (PInt 0) (PInt 0) (PInt 0) (PInt 0)),
        Monitor TimeoutReached]
   \<and> requests (trace (run_state
     (main_loop 2 stuck_world ''1.1'' ''00001'' ''q'' 10 5 1 1 [fw_1_1] init_state)))
   = [FindDistributionSet ''fw'' ''1.1'',
      CreateRollout
        \<lparr>rp_name = ''Rollout_Seq_1.1_00001_1'', rp_distributionSetId = PInt 42,
          rp_targetFilterQuery = ''q'', rp_actionType = ''forced'', rp_amountGroups = 1,
          rp_start = ''auto''\<rparr>]
     @ replicate 22 (GetRollout (PInt 7))"
  using stuck_printed stuck_requests by (rule conjI)

end
